theory Spec2Isabelle
  imports Main "HOL-Library.Sublist"
begin

section \<open>Smart Bin Worker: the data model\<close>

text \<open>
  The worker (\<^verbatim>\<open>src/worker.js\<close>) serves bin records kept in a D1 table \<^verbatim>\<open>bins\<close>
  and photos kept in an R2 bucket. Strings are byte strings (UTF-8), as \<^verbatim>\<open>string\<close> is.

  A field of an update payload is, for the worker, one of three things: \<^verbatim>\<open>undefined\<close>
  (also what reading an absent key yields), \<^verbatim>\<open>null\<close>, or a string. The columns of the
  table are \<^verbatim>\<open>TEXT\<close>; what the database binding does with a number, a boolean or
  an array is the platform's business and not in the source, so such values are outside
  the model.
\<close>

datatype jsval = Undefined | Null | Str string

text \<open>The schema: \<^verbatim>\<open>bin_id TEXT PRIMARY KEY\<close>, four nullable \<^verbatim>\<open>TEXT\<close> columns and the
  nullable \<^verbatim>\<open>INTEGER\<close> column \<^verbatim>\<open>updated_at\<close>. A column holding \<^verbatim>\<open>NULL\<close> is \<open>None\<close>.\<close>

record row =
  bin_id :: string
  case_code :: "string option"
  bin_type :: "string option"
  "notes" :: "string option"
  photo_key :: "string option"
  updated_at :: "int option"

text \<open>An object of the bucket: its bytes and the \<^verbatim>\<open>httpMetadata\<close> stored with it.\<close>

record http_metadata =
  contentType :: "string option"
  cacheControl :: "string option"

record r2object =
  object_body :: string
  httpMetadata :: "http_metadata option"

text \<open>The bindings \<^verbatim>\<open>env.BINS_DB\<close> (the rows of \<^verbatim>\<open>bins\<close>, in insertion order) and
  \<^verbatim>\<open>env.BINS_BUCKET\<close>.\<close>

record env =
  BINS_DB :: "row list"
  BINS_BUCKET :: "string \<rightharpoonup> r2object"

section \<open>JavaScript operators the worker uses\<close>

text \<open>\<^verbatim>\<open>a ?? b\<close>: \<open>b\<close> when \<open>a\<close> is \<^verbatim>\<open>null\<close> or \<^verbatim>\<open>undefined\<close>, else \<open>a\<close>.\<close>

fun nullish :: "jsval \<Rightarrow> jsval \<Rightarrow> jsval" where
  "nullish Undefined b = b"
| "nullish Null b = b"
| "nullish (Str s) b = Str s"

text \<open>A column value read from a row object: \<^verbatim>\<open>NULL\<close> is \<^verbatim>\<open>null\<close>.\<close>

fun of_column :: "string option \<Rightarrow> jsval" where
  "of_column None = Null"
| "of_column (Some s) = Str s"

text \<open>\<^verbatim>\<open>existing?.f\<close>: \<^verbatim>\<open>undefined\<close> when \<open>existing\<close> is \<^verbatim>\<open>null\<close>.\<close>

fun optional_chain :: "row option \<Rightarrow> (row \<Rightarrow> string option) \<Rightarrow> jsval" where
  "optional_chain None f = Undefined"
| "optional_chain (Some r) f = of_column (f r)"

text \<open>A value bound to a statement parameter of a \<^verbatim>\<open>TEXT\<close> column. The worker never
  binds \<^verbatim>\<open>undefined\<close> (lemma \<open>resolved_defined\<close> below), which the binding refuses.\<close>

fun to_column :: "jsval \<Rightarrow> string option" where
  "to_column (Str s) = Some s"
| "to_column Null = None"
| "to_column Undefined = None"

text \<open>Truthiness of a string-or-null value: \<^verbatim>\<open>null\<close> and \<^verbatim>\<open>""\<close> are falsy.\<close>

fun truthy :: "string option \<Rightarrow> bool" where
  "truthy None = False"
| "truthy (Some s) = (s \<noteq> [])"

text \<open>\<^verbatim>\<open>v || d\<close> for a string-or-null \<open>v\<close> and a string \<open>d\<close>.\<close>

definition or_default :: "string option \<Rightarrow> string \<Rightarrow> string" where
  "or_default v d = (case v of None \<Rightarrow> d | Some s \<Rightarrow> if s = [] then d else s)"

text \<open>Reading property \<open>k\<close> of an object literal given by its own properties.\<close>

definition property :: "(string \<times> jsval) list \<Rightarrow> string \<Rightarrow> jsval" where
  "property obj k = (case map_of obj k of None \<Rightarrow> Undefined | Some v \<Rightarrow> v)"

section \<open>The row store\<close>

text \<open>\<^verbatim>\<open>SELECT * FROM bins WHERE bin_id = ?\<close> with \<^verbatim>\<open>.first()\<close>, and \<^verbatim>\<open>row || null\<close>.\<close>

definition getBinRow :: "env \<Rightarrow> string \<Rightarrow> row option" where
  "getBinRow env binId = find (\<lambda>r. bin_id r = binId) (BINS_DB env)"

text \<open>\<^verbatim>\<open>UPDATE bins SET case_code = ?, bin_type = ?, notes = ?, photo_key = ?,
  updated_at = ? WHERE bin_id = ?\<close>.\<close>

definition sql_update ::
  "string option \<Rightarrow> string option \<Rightarrow> string option \<Rightarrow> string option \<Rightarrow> int \<Rightarrow> string
    \<Rightarrow> row list \<Rightarrow> row list" where
  "sql_update c b n p now binId rows =
     map (\<lambda>r. if bin_id r = binId
               then r\<lparr>case_code := c, bin_type := b, notes := n, photo_key := p,
                      updated_at := Some now\<rparr>
               else r) rows"

text \<open>\<^verbatim>\<open>INSERT INTO bins (bin_id, case_code, bin_type, notes, photo_key, updated_at)
  VALUES (?, ?, ?, ?, ?, ?)\<close>. The worker inserts only after a lookup found no row, so
  the primary key is not violated.\<close>

definition sql_insert ::
  "string \<Rightarrow> string option \<Rightarrow> string option \<Rightarrow> string option \<Rightarrow> string option \<Rightarrow> int
    \<Rightarrow> row list \<Rightarrow> row list" where
  "sql_insert binId c b n p now rows =
     rows @ [\<lparr>bin_id = binId, case_code = c, bin_type = b, notes = n, photo_key = p,
              updated_at = Some now\<rparr>]"

section \<open>The upsert engine\<close>

text \<open>\<^verbatim>\<open>data.f ?? existing?.f ?? null\<close>, for the field \<open>f\<close> named \<open>k\<close>.\<close>

definition resolved ::
  "(string \<times> jsval) list \<Rightarrow> string \<Rightarrow> row option \<Rightarrow> (row \<Rightarrow> string option) \<Rightarrow> jsval" where
  "resolved data k existing f = nullish (nullish (property data k) (optional_chain existing f)) Null"

text \<open>\<^verbatim>\<open>upsertBinRow(env, binId, data)\<close>; \<open>now\<close> is what \<^verbatim>\<open>Date.now()\<close> returns in it.
  The result is the row read back and the environment after the write.\<close>

definition upsertBinRow ::
  "env \<Rightarrow> string \<Rightarrow> (string \<times> jsval) list \<Rightarrow> int \<Rightarrow> row option \<times> env" where
  "upsertBinRow env binId data now =
     (let existing = getBinRow env binId;
          c = to_column (resolved data ''case_code'' existing case_code);
          b = to_column (resolved data ''bin_type'' existing bin_type);
          n = to_column (resolved data ''notes'' existing notes);
          p = to_column (resolved data ''photo_key'' existing photo_key);
          env' = (case existing of
                    Some _ \<Rightarrow> env\<lparr>BINS_DB := sql_update c b n p now binId (BINS_DB env)\<rparr>
                  | None \<Rightarrow> env\<lparr>BINS_DB := sql_insert binId c b n p now (BINS_DB env)\<rparr>)
      in (getBinRow env' binId, env'))"

section \<open>Strings\<close>

text \<open>\<^verbatim>\<open>encodeURIComponent\<close>: the unreserved characters stay, every other byte becomes
  \<^verbatim>\<open>%XX\<close> with upper-case hexadecimal digits.\<close>

definition unreserved :: "char \<Rightarrow> bool" where
  "unreserved c \<longleftrightarrow>
     c \<in> set (''ABCDEFGHIJKLMNOPQRSTUVWXYZabcdefghijklmnopqrstuvwxyz0123456789-_.!~*()'' @ [CHR 0x27])"

definition hexdigit :: "nat \<Rightarrow> char" where
  "hexdigit n = ''0123456789ABCDEF'' ! n"

definition encode_char :: "char \<Rightarrow> string" where
  "encode_char c =
     (if unreserved c then [c]
      else [CHR ''%'', hexdigit (of_char c div 16), hexdigit (of_char c mod 16)])"

definition encodeURIComponent :: "string \<Rightarrow> string" where
  "encodeURIComponent s = concat (map encode_char s)"

text \<open>A number in a template literal, \<^verbatim>\<open>`${timestamp}`\<close>: its decimal digits, with a
  minus sign when negative. (\<^verbatim>\<open>Date.now()\<close> is an integer far below \<open>10\<^sup>2\<^sup>1\<close>, where
  JavaScript would switch to exponent notation.)\<close>

fun digits :: "nat \<Rightarrow> string" where
  "digits n = (if n < 10 then [''0123456789'' ! n]
               else digits (n div 10) @ [''0123456789'' ! (n mod 10)])"

declare digits.simps [simp del]

definition number_string :: "int \<Rightarrow> string" where
  "number_string i = (if i < 0 then CHR ''-'' # digits (nat (- i)) else digits (nat i))"

text \<open>\<^verbatim>\<open>s.replace(/c/g, rep)\<close> for a single character \<open>c\<close>.\<close>

definition replace_all :: "char \<Rightarrow> string \<Rightarrow> string \<Rightarrow> string" where
  "replace_all c rep s = concat (map (\<lambda>x. if x = c then rep else [x]) s)"

definition escapeHtml :: "string \<Rightarrow> string" where
  "escapeHtml s =
     replace_all (CHR 0x22) ''&quot;''
       (replace_all CHR ''>'' ''&gt;''
         (replace_all CHR ''<'' ''&lt;''
           (replace_all CHR ''&'' ''&amp;'' s)))"

text \<open>\<^verbatim>\<open>path.split("/")\<close>: the pieces between the slashes, empty ones included.\<close>

fun split_on :: "char \<Rightarrow> string \<Rightarrow> string list" where
  "split_on c [] = [[]]"
| "split_on c (x # xs) =
     (if x = c then [] # split_on c xs
      else (case split_on c xs of w # ws \<Rightarrow> (x # w) # ws | [] \<Rightarrow> [[x]]))"

text \<open>\<^verbatim>\<open>pathname.replace(/^\/|\/$/g, "")\<close>: one leading and one trailing slash go.\<close>

definition strip_slashes :: "string \<Rightarrow> string" where
  "strip_slashes s =
     (let s1 = (case s of [] \<Rightarrow> [] | c # cs \<Rightarrow> if c = CHR ''/'' then cs else s)
      in if s1 \<noteq> [] \<and> last s1 = CHR ''/'' then butlast s1 else s1)"

section \<open>Requests and responses\<close>

text \<open>What \<^verbatim>\<open>request.json()\<close> resolves to: \<^verbatim>\<open>null\<close>, an object (its own properties;
  values other than strings and \<^verbatim>\<open>null\<close> are outside the model), or any other JSON
  value (a number, a boolean, a string, an array), none of which has a property
  \<^verbatim>\<open>case_code\<close>, \<^verbatim>\<open>bin_type\<close> or \<^verbatim>\<open>notes\<close>.\<close>

datatype json_body = BodyNull | BodyOther | BodyObject "(string \<times> jsval) list"

text \<open>A request: its method, the \<^verbatim>\<open>pathname\<close> and \<^verbatim>\<open>searchParams\<close> of its URL, the
  value of \<^verbatim>\<open>headers.get("content-type")\<close>, the outcome of \<^verbatim>\<open>request.json()\<close>
  (\<open>None\<close> when it rejects: the body is not JSON) and of \<^verbatim>\<open>request.arrayBuffer()\<close>.\<close>

record request =
  "method" :: string
  pathname :: string
  searchParams :: "(string \<times> string) list"
  header_content_type :: "string option"
  json :: "json_body option"
  arrayBuffer :: string

text \<open>An uncaught exception of the worker.\<close>

datatype error = TypeError

text \<open>\<^verbatim>\<open>body.k\<close>: reading a property of \<^verbatim>\<open>null\<close> throws.\<close>

fun member :: "json_body \<Rightarrow> string \<Rightarrow> error + jsval" where
  "member BodyNull k = Inl TypeError"
| "member BodyOther k = Inr Undefined"
| "member (BodyObject kvs) k = Inr (property kvs k)"

text \<open>The object handed to \<^verbatim>\<open>JSON.stringify\<close>; the serialisation itself is not modelled.\<close>

datatype json_value =
  JNull | JString string | JNumber int | JObject "(string \<times> json_value) list"

datatype payload = Text string | Json json_value | Stream string

record response =
  status :: nat
  headers :: "(string \<times> string) list"
  body :: payload

definition text_response :: "string \<Rightarrow> nat \<Rightarrow> response" where
  "text_response s st = \<lparr>status = st, headers = [], body = Text s\<rparr>"

definition jsonResponse :: "json_value \<Rightarrow> nat \<Rightarrow> response" where
  "jsonResponse obj st =
     \<lparr>status = st, headers = [(''Content-Type'', ''application/json; charset=utf-8'')],
      body = Json obj\<rparr>"

fun json_text :: "string option \<Rightarrow> json_value" where
  "json_text None = JNull"
| "json_text (Some s) = JString s"

fun json_int :: "int option \<Rightarrow> json_value" where
  "json_int None = JNull"
| "json_int (Some i) = JNumber i"

text \<open>A row object (or \<^verbatim>\<open>null\<close>) as JSON: the columns in the order of the table.\<close>

fun row_json :: "row option \<Rightarrow> json_value" where
  "row_json None = JNull"
| "row_json (Some r) =
     JObject [(''bin_id'', JString (bin_id r)), (''case_code'', json_text (case_code r)),
              (''bin_type'', json_text (bin_type r)), (''notes'', json_text (notes r)),
              (''photo_key'', json_text (photo_key r)), (''updated_at'', json_int (updated_at r))]"

section \<open>The handlers\<close>

text \<open>\<^verbatim>\<open>/bin/${encodeURIComponent(binId)}/photo\<close>.\<close>

definition photo_url :: "string \<Rightarrow> string" where
  "photo_url binId = ''/bin/'' @ encodeURIComponent binId @ ''/photo''"

text \<open>\<^verbatim>\<open>handleBinJsonGet(binId, env)\<close>: \<^verbatim>\<open>GET /api/bin/{id}\<close> or
  \<^verbatim>\<open>/bin/{id}?format=json\<close>.\<close>

definition handleBinJsonGet :: "string \<Rightarrow> env \<Rightarrow> response" where
  "handleBinJsonGet binId env =
     (case getBinRow env binId of
        None \<Rightarrow>
          jsonResponse
            (JObject [(''status'', JString ''not_found''), (''bin_id'', JString binId),
                      (''message'', JString ''Bin not registered yet'')])
            404
      | Some row \<Rightarrow>
          jsonResponse
            (JObject [(''status'', JString ''ok''), (''bin_id'', JString (bin_id row)),
                      (''case_code'', json_text (case_code row)),
                      (''bin_type'', json_text (bin_type row)),
                      (''notes'', json_text (notes row)),
                      (''photo_url'',
                         if truthy (photo_key row) then JString (photo_url binId) else JNull),
                      (''updated_at'', json_int (updated_at row))])
            200)"

text \<open>\<^verbatim>\<open>handleBinHtmlGet(binId, env)\<close>: the landing page. \<open>nl\<close> is the line break of
  the template literal, \<open>dq\<close> the double quote.\<close>

definition nl :: string where
  "nl = [CHR 0x0A]"

definition dq :: string where
  "dq = [CHR 0x22]"

definition html_headers :: "(string \<times> string) list" where
  "html_headers = [(''Content-Type'', ''text/html; charset=utf-8'')]"

definition handleBinHtmlGet :: "string \<Rightarrow> env \<Rightarrow> response" where
  "handleBinHtmlGet binId env =
     (case getBinRow env binId of
        None \<Rightarrow>
          \<lparr>status = 404, headers = html_headers,
           body = Text (concat
             [nl, ''<!doctype html>'', nl, ''<html>'', nl,
              ''<head><meta charset='', dq, ''utf-8'', dq, ''><title>Bin '', escapeHtml binId,
              ''</title></head>'', nl,
              ''<body>'', nl,
              ''    <h2>Bin '', escapeHtml binId, ''</h2>'', nl,
              ''    <p>This bin is not registered yet.</p>'', nl,
              ''</body>'', nl, ''</html>''])\<rparr>
      | Some row \<Rightarrow>
          (let title = (case case_code row of
                          None \<Rightarrow> ''Bin '' @ bin_id row
                        | Some c \<Rightarrow>
                            if c = [] then ''Bin '' @ bin_id row
                            else ''Bin '' @ bin_id row @ '' '' @ [CHR 0xE2, CHR 0x80, CHR 0x93]
                                 @ '' Case '' @ c);
               imgTag = (if truthy (photo_key row)
                         then ''<img src='' @ dq @ photo_url binId @ dq @ '' style='' @ dq
                              @ ''max-width:100%;height:auto;'' @ dq @ '' alt='' @ dq
                              @ ''Bin photo'' @ dq @ ''>''
                         else ''<p><em>No photo uploaded yet.</em></p>'')
           in \<lparr>status = 200, headers = html_headers,
               body = Text (concat
                 [nl, ''<!doctype html>'', nl, ''<html>'', nl, ''<head>'', nl,
                  ''    <meta charset='', dq, ''utf-8'', dq, ''>'', nl,
                  ''    <title>'', escapeHtml title, ''</title>'', nl,
                  ''</head>'', nl, ''<body>'', nl,
                  ''    <h2>'', escapeHtml title, ''</h2>'', nl,
                  ''    <p><strong>Bin type:</strong> '',
                  escapeHtml (or_default (bin_type row) ''-''), ''</p>'', nl,
                  ''    <p><strong>Notes:</strong> '',
                  escapeHtml (or_default (notes row) ''-''), ''</p>'', nl,
                  ''    '',
                  (case case_code row of
                     None \<Rightarrow> []
                   | Some c \<Rightarrow>
                       if c = [] then []
                       else ''<p><strong>Case:</strong> '' @ escapeHtml c @ ''</p>''), nl,
                  ''    '', imgTag, nl,
                  ''</body>'', nl, ''</html>''])\<rparr>))"

text \<open>\<^verbatim>\<open>handleBinMetaPost(request, binId, env)\<close>: \<^verbatim>\<open>POST /bin/{id}\<close>. The \<^verbatim>\<open>catch\<close>
  answers 400 when \<^verbatim>\<open>request.json()\<close> rejects; reading the three properties of a
  \<^verbatim>\<open>null\<close> body throws outside the \<^verbatim>\<open>try\<close>. \<open>now\<close> is the \<^verbatim>\<open>Date.now()\<close> of the
  upsert.\<close>

definition handleBinMetaPost ::
  "request \<Rightarrow> string \<Rightarrow> int \<Rightarrow> env \<Rightarrow> (error + response) \<times> env" where
  "handleBinMetaPost request binId now env =
     (case json request of
        None \<Rightarrow>
          (Inr (jsonResponse
                  (JObject [(''error'',
                     JString ''Expected JSON body with fields case_code/bin_type/notes'')])
                  400),
           env)
      | Some b \<Rightarrow>
          (case member b ''case_code'' of
             Inl e \<Rightarrow> (Inl e, env)
           | Inr c \<Rightarrow>
              (case member b ''bin_type'' of
                 Inl e \<Rightarrow> (Inl e, env)
               | Inr t \<Rightarrow>
                  (case member b ''notes'' of
                     Inl e \<Rightarrow> (Inl e, env)
                   | Inr n \<Rightarrow>
                      (let data = [(''case_code'', c), (''bin_type'', t), (''notes'', n)];
                           (row, env') = upsertBinRow env binId data now
                       in (Inr (jsonResponse
                                  (JObject [(''status'', JString ''ok''), (''bin'', row_json row)])
                                  200),
                           env'))))))"

text \<open>The key of an uploaded photo:
  \<^verbatim>\<open>`bins/${encodeURIComponent(binId)}/${timestamp}.img`\<close>.\<close>

definition photo_object_key :: "string \<Rightarrow> int \<Rightarrow> string" where
  "photo_object_key binId timestamp =
     ''bins/'' @ encodeURIComponent binId @ ''/'' @ number_string timestamp @ ''.img''"

text \<open>\<^verbatim>\<open>env.BINS_BUCKET.put(key, body, { httpMetadata: { contentType } })\<close>: an object
  already under the key is replaced.\<close>

definition bucket_put :: "string \<Rightarrow> string \<Rightarrow> string \<Rightarrow> env \<Rightarrow> env" where
  "bucket_put key bytes ct env =
     env\<lparr>BINS_BUCKET := (BINS_BUCKET env)
            (key \<mapsto> \<lparr>object_body = bytes,
                      httpMetadata = Some \<lparr>contentType = Some ct, cacheControl = None\<rparr>\<rparr>)\<rparr>"

text \<open>\<^verbatim>\<open>handleBinPhotoPost(request, binId, env)\<close>: \<^verbatim>\<open>POST /bin/{id}/photo\<close>.
  \<open>timestamp\<close> is the handler's own \<^verbatim>\<open>Date.now()\<close>, \<open>now\<close> the later one of the upsert.\<close>

definition handleBinPhotoPost ::
  "request \<Rightarrow> string \<Rightarrow> int \<Rightarrow> int \<Rightarrow> env \<Rightarrow> response \<times> env" where
  "handleBinPhotoPost request binId timestamp now env =
     (let contentType = or_default (header_content_type request) ''application/octet-stream'';
          bytes = arrayBuffer request;
          key = photo_object_key binId timestamp;
          env1 = bucket_put key bytes contentType env;
          (row, env2) = upsertBinRow env1 binId [(''photo_key'', Str key)] now
      in (jsonResponse
            (JObject [(''status'', JString ''ok''), (''bin_id'', JString binId),
                      (''photo_key'', JString key), (''photo_url'', JString (photo_url binId)),
                      (''bin'', row_json row)])
            200,
          env2))"

text \<open>The store calls \<^verbatim>\<open>handleBinPhotoPost\<close> awaits, in program order:
  \<^verbatim>\<open>env.BINS_BUCKET.put\<close> in the handler itself, then in \<^verbatim>\<open>upsertBinRow\<close> the
  \<^verbatim>\<open>SELECT\<close>, the \<^verbatim>\<open>UPDATE\<close> or \<^verbatim>\<open>INSERT\<close>, and the \<^verbatim>\<open>SELECT\<close> that reads the row
  back.\<close>

datatype store_call = PutBlob | SelectRow | WriteRow | ReadRowBack

text \<open>\<^verbatim>\<open>handleBinPhotoPost\<close> when a store call rejects. Nothing in the worker catches the
  exception, so the handler ends at that call, with what the calls before it wrote and
  without a response. \<open>thrown\<close> is the call that rejects, if one does.\<close>

definition handleBinPhotoPost_throwing ::
  "store_call option \<Rightarrow> request \<Rightarrow> string \<Rightarrow> int \<Rightarrow> int \<Rightarrow> env
    \<Rightarrow> (store_call + response) \<times> env" where
  "handleBinPhotoPost_throwing thrown request binId timestamp now env =
     (let contentType = or_default (header_content_type request) ''application/octet-stream'';
          bytes = arrayBuffer request;
          key = photo_object_key binId timestamp
      in if thrown = Some PutBlob then (Inl PutBlob, env)
         else
           (let env1 = bucket_put key bytes contentType env
            in if thrown = Some SelectRow then (Inl SelectRow, env1)
               else if thrown = Some WriteRow then (Inl WriteRow, env1)
               else
                 (let (row, env2) = upsertBinRow env1 binId [(''photo_key'', Str key)] now
                  in if thrown = Some ReadRowBack then (Inl ReadRowBack, env2)
                     else
                       (Inr (jsonResponse
                               (JObject [(''status'', JString ''ok''),
                                         (''bin_id'', JString binId),
                                         (''photo_key'', JString key),
                                         (''photo_url'', JString (photo_url binId)),
                                         (''bin'', row_json row)])
                               200),
                        env2))))"

text \<open>\<^verbatim>\<open>handleBinPhotoGet(binId, env)\<close>: \<^verbatim>\<open>GET /bin/{id}/photo\<close>.\<close>

definition handleBinPhotoGet :: "string \<Rightarrow> env \<Rightarrow> response" where
  "handleBinPhotoGet binId env =
     (case getBinRow env binId of
        None \<Rightarrow> text_response ''No photo for this bin'' 404
      | Some row \<Rightarrow>
          (case photo_key row of
             None \<Rightarrow> text_response ''No photo for this bin'' 404
           | Some key \<Rightarrow>
               if key = [] then text_response ''No photo for this bin'' 404
               else
                 (case BINS_BUCKET env key of
                    None \<Rightarrow> text_response ''Photo object not found'' 404
                  | Some object \<Rightarrow>
                      (let meta = (case httpMetadata object of
                                     None \<Rightarrow> \<lparr>contentType = None, cacheControl = None\<rparr>
                                   | Some m \<Rightarrow> m)
                       in \<lparr>status = 200,
                           headers =
                             (''Content-Type'', or_default (contentType meta) ''image/jpeg'')
                             # (case cacheControl meta of
                                  None \<Rightarrow> []
                                | Some cc \<Rightarrow> if cc = [] then [] else [(''Cache-Control'', cc)]),
                           body = Stream (object_body object)\<rparr>))))"

section \<open>The router\<close>

text \<open>\<^verbatim>\<open>segments[i]\<close>: \<^verbatim>\<open>undefined\<close> beyond the end.\<close>

definition segment :: "string list \<Rightarrow> nat \<Rightarrow> string option" where
  "segment segments i = (if i < length segments then Some (segments ! i) else None)"

text \<open>What \<^verbatim>\<open>fetch\<close> decides to do with a request: the handler it calls with the bin
  id, or one of its own three answers.\<close>

datatype action =
  Health | JsonGet string | HtmlGet string | MetaPost string | PhotoGet string
  | PhotoPost string | MethodNotAllowed | NotFound

definition path_segments :: "string \<Rightarrow> string list" where
  "path_segments p = filter (\<lambda>s. s \<noteq> []) (split_on CHR ''/'' (strip_slashes p))"

definition route :: "request \<Rightarrow> action" where
  "route request =
     (let segments = path_segments (pathname request)
      in if length segments = 0 then Health
         else if segment segments 0 = Some ''api'' \<and> segment segments 1 = Some ''bin''
                 \<and> truthy (segment segments 2)
         then (if method request = ''GET'' then JsonGet (segments ! 2) else MethodNotAllowed)
         else if segment segments 0 = Some ''bin'' \<and> truthy (segment segments 1)
         then (if segment segments 2 = Some ''photo''
               then (if method request = ''GET'' then PhotoGet (segments ! 1)
                     else if method request = ''POST'' then PhotoPost (segments ! 1)
                     else MethodNotAllowed)
               else if length segments = 2
               then (if method request = ''GET''
                     then (if or_default (map_of (searchParams request) ''format'') ''html''
                              = ''json''
                           then JsonGet (segments ! 1) else HtmlGet (segments ! 1))
                     else if method request = ''POST'' then MetaPost (segments ! 1)
                     else NotFound)
               else NotFound)
         else NotFound)"

text \<open>\<^verbatim>\<open>fetch(request, env, ctx)\<close>. \<open>clock k\<close> is what the \<open>k\<close>-th call of
  \<^verbatim>\<open>Date.now()\<close> during the request returns. The result is the response, or the
  exception that escapes, and the environment the request leaves.\<close>

definition fetch :: "request \<Rightarrow> (nat \<Rightarrow> int) \<Rightarrow> env \<Rightarrow> (error + response) \<times> env" where
  "fetch request clock env =
     (case route request of
        Health \<Rightarrow> (Inr (text_response ''Smart Bin Worker online'' 200), env)
      | JsonGet binId \<Rightarrow> (Inr (handleBinJsonGet binId env), env)
      | HtmlGet binId \<Rightarrow> (Inr (handleBinHtmlGet binId env), env)
      | MetaPost binId \<Rightarrow> handleBinMetaPost request binId (clock 0) env
      | PhotoGet binId \<Rightarrow> (Inr (handleBinPhotoGet binId env), env)
      | PhotoPost binId \<Rightarrow>
          (let (r, env') = handleBinPhotoPost request binId (clock 0) (clock 1) env
           in (Inr r, env'))
      | MethodNotAllowed \<Rightarrow> (Inr (text_response ''Method not allowed'' 405), env)
      | NotFound \<Rightarrow> (Inr (text_response ''Not found'' 404), env))"

text \<open>A sequence of requests, each with its clock readings, served one after the other.\<close>

fun serve :: "env \<Rightarrow> (request \<times> (nat \<Rightarrow> int)) list \<Rightarrow> env" where
  "serve env [] = env"
| "serve env ((request, clock) # rest) = serve (snd (fetch request clock env)) rest"

section \<open>Vocabulary of the properties\<close>

text \<open>The value a field of the record takes in an upsert, as a rule on the value \<open>v\<close>
  the payload gives for it: a string is stored; with \<^verbatim>\<open>null\<close>, \<^verbatim>\<open>undefined\<close> or no such
  key the record keeps what it had, and a new record gets \<^verbatim>\<open>NULL\<close>.\<close>

definition field_rule :: "jsval \<Rightarrow> row option \<Rightarrow> (row \<Rightarrow> string option) \<Rightarrow> string option" where
  "field_rule v existing f =
     (case v of
        Str s \<Rightarrow> Some s
      | Null \<Rightarrow> (case existing of Some e \<Rightarrow> f e | None \<Rightarrow> None)
      | Undefined \<Rightarrow> (case existing of Some e \<Rightarrow> f e | None \<Rightarrow> None))"

text \<open>The record an upsert leaves under \<open>binId\<close>.\<close>

definition merged_row :: "env \<Rightarrow> string \<Rightarrow> (string \<times> jsval) list \<Rightarrow> int \<Rightarrow> row" where
  "merged_row env binId data now =
     \<lparr>bin_id = binId,
      case_code = field_rule (property data ''case_code'') (getBinRow env binId) case_code,
      bin_type = field_rule (property data ''bin_type'') (getBinRow env binId) bin_type,
      notes = field_rule (property data ''notes'') (getBinRow env binId) notes,
      photo_key = field_rule (property data ''photo_key'') (getBinRow env binId) photo_key,
      updated_at = Some now\<rparr>"

text \<open>The HTTP status of an outcome of \<open>fetch\<close>; none when an exception escaped.\<close>

definition status_of :: "(error + response) \<times> env \<Rightarrow> nat option" where
  "status_of out = (case fst out of Inl e \<Rightarrow> None | Inr r \<Rightarrow> Some (status r))"

text \<open>Clock readings for one request: \<open>t0\<close> at the first \<^verbatim>\<open>Date.now()\<close>, \<open>t1\<close> after.\<close>

definition readings :: "int \<Rightarrow> int \<Rightarrow> nat \<Rightarrow> int" where
  "readings t0 t1 k = (if k = 0 then t0 else t1)"

text \<open>The content type and the cache control stored with an object, if any.\<close>

definition stored_content_type :: "r2object \<Rightarrow> string option" where
  "stored_content_type object =
     (case httpMetadata object of None \<Rightarrow> None | Some m \<Rightarrow> contentType m)"

definition stored_cache_control :: "r2object \<Rightarrow> string option" where
  "stored_cache_control object =
     (case httpMetadata object of None \<Rightarrow> None | Some m \<Rightarrow> cacheControl m)"

text \<open>No record holds the empty string as its photo key.\<close>

definition photo_keys_nonempty :: "env \<Rightarrow> bool" where
  "photo_keys_nonempty env = list_all (\<lambda>r. photo_key r \<noteq> Some []) (BINS_DB env)"

text \<open>No record carries a time stamp later than \<open>t\<close>.\<close>

definition stamps_le :: "env \<Rightarrow> int \<Rightarrow> bool" where
  "stamps_le env t =
     list_all (\<lambda>r. case updated_at r of None \<Rightarrow> True | Some u \<Rightarrow> u \<le> t) (BINS_DB env)"

text \<open>The clock does not run backwards over a sequence of requests served after a
  reading \<open>t\<close>: the readings of each request are in order and not earlier than the last
  reading before it.\<close>

fun nondecreasing :: "int \<Rightarrow> (request \<times> (nat \<Rightarrow> int)) list \<Rightarrow> bool" where
  "nondecreasing t [] = True"
| "nondecreasing t ((request, clock) # rest) =
     (t \<le> clock 0 \<and> clock 0 \<le> clock 1 \<and> nondecreasing (clock 1) rest)"

text \<open>The last reading of such a sequence.\<close>

fun last_reading :: "int \<Rightarrow> (request \<times> (nat \<Rightarrow> int)) list \<Rightarrow> int" where
  "last_reading t [] = t"
| "last_reading t ((request, clock) # rest) = last_reading (clock 1) rest"

section \<open>Lemmas on the row store and the upsert engine\<close>

lemma resolved_defined: "resolved data k existing f \<noteq> Undefined"
  by (cases "property data k"; cases existing; simp add: resolved_def;
      cases "f (the existing)"; simp)

lemma to_column_resolved:
  "to_column (resolved data k existing f) = field_rule (property data k) existing f"
  by (cases "property data k"; cases existing; simp add: resolved_def field_rule_def;
      cases "f (the existing)"; simp)

lemma find_snoc_new: "find P rows = None \<Longrightarrow> P r \<Longrightarrow> find P (rows @ [r]) = Some r"
  by (induction rows) (auto split: if_splits)

lemma find_snoc_other: "\<not> P r \<Longrightarrow> find P (rows @ [r]) = find P rows"
  by (induction rows) auto

lemma find_map_hit:
  "find (\<lambda>r. bin_id r = k) rows = Some e \<Longrightarrow> (\<And>r. bin_id (g r) = bin_id r) \<Longrightarrow>
   find (\<lambda>r. bin_id r = k) (map (\<lambda>r. if bin_id r = k then g r else r) rows) = Some (g e)"
  by (induction rows) (auto split: if_splits)

lemma find_map_other:
  "k' \<noteq> k \<Longrightarrow> (\<And>r. bin_id (g r) = bin_id r) \<Longrightarrow>
   find (\<lambda>r. bin_id r = k') (map (\<lambda>r. if bin_id r = k then g r else r) rows)
     = find (\<lambda>r. bin_id r = k') rows"
  by (induction rows) (auto split: if_splits)

lemma getBinRow_bin_id: "getBinRow env k = Some e \<Longrightarrow> bin_id e = k"
  by (auto simp: getBinRow_def find_Some_iff)

lemma upsert_fst: "fst (upsertBinRow env binId data now) = Some (merged_row env binId data now)"
proof (cases "getBinRow env binId")
  case None
  then show ?thesis
    by (simp add: upsertBinRow_def Let_def getBinRow_def sql_insert_def find_snoc_new
        to_column_resolved merged_row_def)
next
  case (Some e)
  then have "bin_id e = binId" by (rule getBinRow_bin_id)
  with Some show ?thesis
    by (simp add: upsertBinRow_def Let_def getBinRow_def sql_update_def find_map_hit
        to_column_resolved merged_row_def)
qed

lemma upsert_lookup:
  "getBinRow (snd (upsertBinRow env binId data now)) binId
     = Some (merged_row env binId data now)"
  using upsert_fst [of env binId data now] by (simp add: upsertBinRow_def Let_def)

lemma upsert_other:
  "k \<noteq> binId \<Longrightarrow> getBinRow (snd (upsertBinRow env binId data now)) k = getBinRow env k"
  by (cases "getBinRow env binId")
     (simp_all add: upsertBinRow_def Let_def getBinRow_def sql_insert_def sql_update_def
        find_snoc_other find_map_other)

lemma upsert_bucket:
  "BINS_BUCKET (snd (upsertBinRow env binId data now)) = BINS_BUCKET env"
  by (cases "getBinRow env binId") (simp_all add: upsertBinRow_def Let_def)

lemma upsert_ids:
  "map bin_id (BINS_DB (snd (upsertBinRow env binId data now)))
     = map bin_id (BINS_DB env)
       @ (case getBinRow env binId of None \<Rightarrow> [binId] | Some e \<Rightarrow> [])"
  by (cases "getBinRow env binId")
     (simp_all add: upsertBinRow_def Let_def sql_insert_def sql_update_def comp_def
        if_distrib cong: if_cong)

lemma getBinRow_None_iff: "getBinRow env k = None \<longleftrightarrow> k \<notin> set (map bin_id (BINS_DB env))"
  by (auto simp: getBinRow_def find_None_iff)

lemma photo_key_of_row:
  "photo_keys_nonempty env \<Longrightarrow> getBinRow env k = Some row \<Longrightarrow> photo_key row \<noteq> Some []"
  by (auto simp: photo_keys_nonempty_def list_all_iff getBinRow_def find_Some_iff)

section \<open>Lemmas on the handlers that write\<close>

lemma meta_post_no_json:
  "json request = None \<Longrightarrow>
   handleBinMetaPost request binId now env =
     (Inr (jsonResponse
             (JObject [(''error'',
                JString ''Expected JSON body with fields case_code/bin_type/notes'')])
             400),
      env)"
  by (simp add: handleBinMetaPost_def)

lemma meta_post_null:
  "json request = Some BodyNull \<Longrightarrow> handleBinMetaPost request binId now env = (Inl TypeError, env)"
  by (simp add: handleBinMetaPost_def)

lemma meta_post_upsert:
  assumes "json request = Some b" and "b \<noteq> BodyNull"
  shows "\<exists>data. property data ''photo_key'' = Undefined
          \<and> handleBinMetaPost request binId now env =
              (Inr (jsonResponse
                      (JObject [(''status'', JString ''ok''),
                                (''bin'', row_json (Some (merged_row env binId data now)))])
                      200),
               snd (upsertBinRow env binId data now))"
proof -
  obtain c t n where m: "member b ''case_code'' = Inr c" "member b ''bin_type'' = Inr t"
      "member b ''notes'' = Inr n"
    using assms(2) by (cases b) simp_all
  let ?data = "[(''case_code'', c), (''bin_type'', t), (''notes'', n)]"
  have "property ?data ''photo_key'' = Undefined" by (simp add: property_def)
  moreover have "handleBinMetaPost request binId now env =
      (Inr (jsonResponse
              (JObject [(''status'', JString ''ok''),
                        (''bin'', row_json (Some (merged_row env binId ?data now)))])
              200),
       snd (upsertBinRow env binId ?data now))"
    using assms(1) m upsert_fst [of env binId ?data now]
    by (simp add: handleBinMetaPost_def Let_def split_beta del: row_json.simps)
  ultimately show ?thesis by blast
qed

lemma meta_post_env:
  "snd (handleBinMetaPost request binId now env) = env
   \<or> (\<exists>data. property data ''photo_key'' = Undefined
        \<and> snd (handleBinMetaPost request binId now env) = snd (upsertBinRow env binId data now))"
proof (cases "json request")
  case None
  then show ?thesis by (simp add: meta_post_no_json)
next
  case (Some b)
  show ?thesis
  proof (cases "b = BodyNull")
    case True
    with Some show ?thesis by (simp add: meta_post_null)
  next
    case False
    from meta_post_upsert [OF Some False, of binId now env] show ?thesis by auto
  qed
qed

lemma photo_post_eq:
  "handleBinPhotoPost request binId timestamp now env =
     (let key = photo_object_key binId timestamp;
          env1 = bucket_put key (arrayBuffer request)
                   (or_default (header_content_type request) ''application/octet-stream'') env
      in (jsonResponse
            (JObject [(''status'', JString ''ok''), (''bin_id'', JString binId),
                      (''photo_key'', JString key), (''photo_url'', JString (photo_url binId)),
                      (''bin'', row_json (Some (merged_row env1 binId [(''photo_key'', Str key)] now)))])
            200,
          snd (upsertBinRow env1 binId [(''photo_key'', Str key)] now)))"
  using upsert_fst [of "bucket_put (photo_object_key binId timestamp) (arrayBuffer request)
                   (or_default (header_content_type request) ''application/octet-stream'') env"
      binId "[(''photo_key'', Str (photo_object_key binId timestamp))]" now]
  by (simp add: handleBinPhotoPost_def Let_def split_beta del: row_json.simps)

lemma bucket_put_db [simp]: "BINS_DB (bucket_put key bytes ct env) = BINS_DB env"
  by (simp add: bucket_put_def)

lemma getBinRow_bucket_put [simp]: "getBinRow (bucket_put key bytes ct env) k = getBinRow env k"
  by (simp add: getBinRow_def)

section \<open>Lemmas on the router\<close>

lemma path_segments_nonempty: "s \<in> set (path_segments p) \<Longrightarrow> s \<noteq> []"
  by (simp add: path_segments_def)

lemma route_health: "path_segments (pathname request) = [] \<Longrightarrow> route request = Health"
  by (simp add: route_def)

lemma route_api:
  assumes "path_segments (pathname request) = [''api'', ''bin'', binId]"
  shows "route request = (if method request = ''GET'' then JsonGet binId else MethodNotAllowed)"
proof -
  have "binId \<in> set (path_segments (pathname request))" using assms by simp
  then have "binId \<noteq> []" by (rule path_segments_nonempty)
  then show ?thesis using assms by (simp add: route_def segment_def)
qed

lemma route_bin:
  assumes "path_segments (pathname request) = [''bin'', binId]"
  shows "route request =
    (if method request = ''GET''
     then (if or_default (map_of (searchParams request) ''format'') ''html'' = ''json''
           then JsonGet binId else HtmlGet binId)
     else if method request = ''POST'' then MetaPost binId else NotFound)"
proof -
  have "binId \<in> set (path_segments (pathname request))" using assms by simp
  then have "binId \<noteq> []" by (rule path_segments_nonempty)
  then show ?thesis using assms by (simp add: route_def segment_def)
qed

lemma route_photo:
  assumes "path_segments (pathname request) = [''bin'', binId, ''photo'']"
  shows "route request =
    (if method request = ''GET'' then PhotoGet binId
     else if method request = ''POST'' then PhotoPost binId else MethodNotAllowed)"
proof -
  have "binId \<in> set (path_segments (pathname request))" using assms by simp
  then have "binId \<noteq> []" by (rule path_segments_nonempty)
  then show ?thesis using assms by (simp add: route_def segment_def)
qed

text \<open>What a request can do to the environment: nothing, a metadata upsert that gives no
  photo key, or a photo upload.\<close>

lemma fetch_env:
  "snd (fetch request clock env) = env
   \<or> (\<exists>binId data now. property data ''photo_key'' = Undefined
        \<and> snd (fetch request clock env) = snd (upsertBinRow env binId data now))
   \<or> (\<exists>binId key bytes ct now. key \<noteq> []
        \<and> snd (fetch request clock env)
            = snd (upsertBinRow (bucket_put key bytes ct env) binId [(''photo_key'', Str key)] now))"
proof (cases "route request")
  case (MetaPost binId)
  then have "snd (fetch request clock env) = snd (handleBinMetaPost request binId (clock 0) env)"
    by (simp add: fetch_def)
  then show ?thesis using meta_post_env [of request binId "clock 0" env] by metis
next
  case (PhotoPost binId)
  have "photo_object_key binId (clock 0) \<noteq> []" by (simp add: photo_object_key_def)
  moreover have "snd (fetch request clock env) =
      snd (upsertBinRow (bucket_put (photo_object_key binId (clock 0)) (arrayBuffer request)
             (or_default (header_content_type request) ''application/octet-stream'') env)
           binId [(''photo_key'', Str (photo_object_key binId (clock 0)))] (clock 1))"
    using PhotoPost by (simp add: fetch_def photo_post_eq Let_def)
  ultimately show ?thesis by blast
qed (simp_all add: fetch_def)

lemma fetch_ids:
  "\<exists>new. map bin_id (BINS_DB (snd (fetch request clock env))) = map bin_id (BINS_DB env) @ new"
  using fetch_env [of request clock env] by (auto simp: upsert_ids)

lemma serve_ids:
  "\<exists>new. map bin_id (BINS_DB (serve env requests)) = map bin_id (BINS_DB env) @ new"
proof (induction requests arbitrary: env)
  case Nil
  show ?case by simp
next
  case (Cons a requests)
  obtain request clock where a: "a = (request, clock)" by (cases a)
  from fetch_ids [of request clock env] obtain new1 where
    1: "map bin_id (BINS_DB (snd (fetch request clock env))) = map bin_id (BINS_DB env) @ new1" ..
  from Cons.IH [of "snd (fetch request clock env)"] obtain new2 where
    2: "map bin_id (BINS_DB (serve (snd (fetch request clock env)) requests))
          = map bin_id (BINS_DB (snd (fetch request clock env))) @ new2" ..
  show ?case using 1 2 a by simp
qed

section \<open>Time stamps under a clock that does not run backwards\<close>

lemma stamps_le_mono: "stamps_le env t \<Longrightarrow> t \<le> t' \<Longrightarrow> stamps_le env t'"
  by (auto simp: stamps_le_def list_all_iff split: option.splits)

lemma stamps_le_row:
  assumes "stamps_le env t" and "getBinRow env k = Some e" and "updated_at e = Some u"
  shows "u \<le> t"
proof -
  have "e \<in> set (BINS_DB env)"
    using assms(2) by (auto simp: getBinRow_def find_Some_iff)
  with assms(1) have "case updated_at e of None \<Rightarrow> True | Some u \<Rightarrow> u \<le> t"
    by (simp add: stamps_le_def list_all_iff)
  with assms(3) show ?thesis by simp
qed

lemma stamps_le_bucket_put [simp]: "stamps_le (bucket_put key bytes ct env) t = stamps_le env t"
  by (simp add: stamps_le_def)

lemma upsert_stamps:
  assumes "stamps_le env t" and "t \<le> now"
  shows "stamps_le (snd (upsertBinRow env binId data now)) now"
proof -
  have "stamps_le env now" using assms by (rule stamps_le_mono)
  then show ?thesis
    by (cases "getBinRow env binId")
       (auto simp: upsertBinRow_def Let_def sql_insert_def sql_update_def stamps_le_def
          list_all_iff)
qed

text \<open>The write of a request, with the reading it stamps: the first one for a metadata
  upsert, the second one for a photo upload.\<close>

lemma fetch_env_clock:
  "snd (fetch request clock env) = env
   \<or> (\<exists>binId data. snd (fetch request clock env) = snd (upsertBinRow env binId data (clock 0)))
   \<or> (\<exists>binId key bytes ct data.
        snd (fetch request clock env)
          = snd (upsertBinRow (bucket_put key bytes ct env) binId data (clock 1)))"
proof (cases "route request")
  case (MetaPost binId)
  then have "snd (fetch request clock env) = snd (handleBinMetaPost request binId (clock 0) env)"
    by (simp add: fetch_def)
  then show ?thesis using meta_post_env [of request binId "clock 0" env] by metis
next
  case (PhotoPost binId)
  then have "snd (fetch request clock env) =
      snd (upsertBinRow (bucket_put (photo_object_key binId (clock 0)) (arrayBuffer request)
             (or_default (header_content_type request) ''application/octet-stream'') env)
           binId [(''photo_key'', Str (photo_object_key binId (clock 0)))] (clock 1))"
    by (simp add: fetch_def photo_post_eq Let_def)
  then show ?thesis by blast
qed (simp_all add: fetch_def)

lemma fetch_stamps:
  assumes "stamps_le env t" and "t \<le> clock 0" and "clock 0 \<le> clock 1"
  shows "stamps_le (snd (fetch request clock env)) (clock 1)"
proof -
  have t1: "t \<le> clock 1" using assms(2,3) by simp
  from fetch_env_clock [of request clock env] show ?thesis
  proof (elim disjE exE)
    assume "snd (fetch request clock env) = env"
    with assms(1) t1 show ?thesis by (simp add: stamps_le_mono)
  next
    fix binId data
    assume "snd (fetch request clock env) = snd (upsertBinRow env binId data (clock 0))"
    with upsert_stamps [OF assms(1,2), of binId data] assms(3) show ?thesis
      by (simp add: stamps_le_mono)
  next
    fix binId key bytes ct data
    assume "snd (fetch request clock env)
          = snd (upsertBinRow (bucket_put key bytes ct env) binId data (clock 1))"
    moreover have "stamps_le (bucket_put key bytes ct env) t" using assms(1) by simp
    ultimately show ?thesis using upsert_stamps [OF _ t1] by simp
  qed
qed

lemma serve_stamps:
  "stamps_le env t \<Longrightarrow> nondecreasing t requests
   \<Longrightarrow> stamps_le (serve env requests) (last_reading t requests)"
proof (induction requests arbitrary: env t)
  case Nil
  then show ?case by simp
next
  case (Cons a requests)
  obtain request clock where a: "a = (request, clock)" by (cases a)
  with Cons.prems have "t \<le> clock 0" "clock 0 \<le> clock 1" "nondecreasing (clock 1) requests"
    by simp_all
  with Cons.IH [OF fetch_stamps [OF Cons.prems(1), of clock request]] a show ?case by simp
qed

lemma serve_snoc: "serve env (requests @ [(request, clock)]) = snd (fetch request clock (serve env requests))"
  by (induction requests arbitrary: env) auto

lemma nondecreasing_snoc:
  "nondecreasing t (requests @ [(request, clock)]) \<longleftrightarrow>
     nondecreasing t requests \<and> last_reading t requests \<le> clock 0 \<and> clock 0 \<le> clock 1"
  by (induction requests arbitrary: t) auto

lemma fetch_updated_at_mono:
  assumes "stamps_le env t" and "t \<le> clock 0" and "clock 0 \<le> clock 1"
    and "getBinRow env k = Some e" and "updated_at e = Some u"
  shows "\<exists>e' u'. getBinRow (snd (fetch request clock env)) k = Some e'
           \<and> updated_at e' = Some u' \<and> u \<le> u'"
proof -
  have u: "u \<le> t" using assms(1,4,5) by (rule stamps_le_row)
  have written: "\<exists>e' u'. getBinRow (snd (upsertBinRow env' binId data now)) k = Some e'
           \<and> updated_at e' = Some u' \<and> u \<le> u'"
    if "getBinRow env' k = Some e" and "t \<le> now" for env' binId data now
  proof (cases "k = binId")
    case True
    with u that(2) show ?thesis by (simp add: upsert_lookup merged_row_def)
  next
    case False
    with that(1) assms(5) show ?thesis by (simp add: upsert_other)
  qed
  from fetch_env_clock [of request clock env] show ?thesis
  proof (elim disjE exE)
    assume "snd (fetch request clock env) = env"
    with assms(4,5) show ?thesis by simp
  next
    fix binId data
    assume "snd (fetch request clock env) = snd (upsertBinRow env binId data (clock 0))"
    with written [OF assms(4,2), of binId data] show ?thesis by simp
  next
    fix binId key bytes ct data
    assume s: "snd (fetch request clock env)
          = snd (upsertBinRow (bucket_put key bytes ct env) binId data (clock 1))"
    have "getBinRow (bucket_put key bytes ct env) k = Some e" using assms(4) by simp
    moreover have "t \<le> clock 1" using assms(2,3) by simp
    ultimately show ?thesis using written [of "bucket_put key bytes ct env" "clock 1" binId data] s
      by simp
  qed
qed

text \<open>The worker never stores an empty photo key: a table without one stays so.\<close>

lemma upsert_photo_keys_nonempty:
  assumes "photo_keys_nonempty env"
    and "property data ''photo_key'' \<noteq> Str []"
  shows "photo_keys_nonempty (snd (upsertBinRow env binId data now))"
proof (cases "getBinRow env binId")
  case None
  with assms show ?thesis
    by (cases "property data ''photo_key''")
       (simp_all add: upsertBinRow_def Let_def sql_insert_def photo_keys_nonempty_def
          resolved_def)
next
  case (Some e)
  then have "e \<in> set (BINS_DB env)"
    by (auto simp: getBinRow_def find_Some_iff)
  then have "photo_key e \<noteq> Some []"
    using assms(1) by (simp add: photo_keys_nonempty_def list_all_iff)
  then have "to_column (resolved data ''photo_key'' (Some e) photo_key) \<noteq> Some []"
    using assms(2)
    by (cases "property data ''photo_key''"; cases "photo_key e") (simp_all add: resolved_def)
  with Some assms(1) show ?thesis
    by (auto simp: upsertBinRow_def Let_def sql_update_def photo_keys_nonempty_def
        list_all_iff)
qed

lemma fetch_photo_keys_nonempty:
  assumes "photo_keys_nonempty env"
  shows "photo_keys_nonempty (snd (fetch request clock env))"
proof -
  have b: "photo_keys_nonempty (bucket_put key bytes ct env)" for key bytes ct
    using assms by (simp add: photo_keys_nonempty_def)
  from fetch_env [of request clock env] show ?thesis
  proof (elim disjE exE conjE)
    assume "snd (fetch request clock env) = env"
    with assms show ?thesis by simp
  next
    fix binId data now
    assume "property data ''photo_key'' = Undefined"
      and "snd (fetch request clock env) = snd (upsertBinRow env binId data now)"
    with assms show ?thesis by (simp add: upsert_photo_keys_nonempty)
  next
    fix binId key bytes ct now
    assume "key \<noteq> []"
      and "snd (fetch request clock env)
            = snd (upsertBinRow (bucket_put key bytes ct env) binId
                     [(''photo_key'', Str key)] now)"
    with b [of key bytes ct] show ?thesis
      by (simp add: upsert_photo_keys_nonempty property_def)
  qed
qed

lemma serve_photo_keys_nonempty:
  "photo_keys_nonempty env \<Longrightarrow> photo_keys_nonempty (serve env requests)"
proof (induction requests arbitrary: env)
  case Nil
  then show ?case by simp
next
  case (Cons a requests)
  obtain request clock where "a = (request, clock)" by (cases a)
  with Cons.IH [OF fetch_photo_keys_nonempty [OF Cons.prems, of request clock]]
  show ?case by simp
qed

lemma empty_photo_keys_nonempty:
  "photo_keys_nonempty \<lparr>BINS_DB = [], BINS_BUCKET = bucket\<rparr>"
  by (simp add: photo_keys_nonempty_def)

section \<open>Lemmas on photo keys\<close>

lemma digit_inj:
  "a < 10 \<Longrightarrow> b < 10 \<Longrightarrow> ''0123456789'' ! a = ''0123456789'' ! b \<Longrightarrow> a = b"
  using nth_eq_iff_index_eq [of "''0123456789''" a b] by simp

lemma digit_in: "a < 10 \<Longrightarrow> ''0123456789'' ! a \<in> set ''0123456789''"
  using nth_mem [of a "''0123456789''"] by simp

lemma digits_nonempty: "digits n \<noteq> []"
  by (subst digits.simps) simp

lemma digits_set: "set (digits n) \<subseteq> set ''0123456789''"
proof (induction n rule: digits.induct)
  case (1 n)
  show ?case
  proof (cases "n < 10")
    case True
    then show ?thesis using digit_in [of n] by (subst digits.simps) simp
  next
    case False
    have "n mod 10 < 10" by simp
    from digit_in [OF this] "1.IH" [OF False] False show ?thesis
      by (subst digits.simps) simp
  qed
qed

lemma digits_inj: "digits n = digits m \<Longrightarrow> n = m"
proof (induction n arbitrary: m rule: digits.induct)
  case (1 n)
  show ?case
  proof (cases "n < 10")
    case n: True
    show ?thesis
    proof (cases "m < 10")
      case True
      with n "1.prems" show ?thesis
        by (simp add: digits.simps [of n] digits.simps [of m] digit_inj)
    next
      case False
      with n "1.prems" digits_nonempty [of "m div 10"] show ?thesis
        by (simp add: digits.simps [of n] digits.simps [of m])
    qed
  next
    case n: False
    show ?thesis
    proof (cases "m < 10")
      case True
      with n "1.prems" digits_nonempty [of "n div 10"] show ?thesis
        by (simp add: digits.simps [of n] digits.simps [of m])
    next
      case False
      with n "1.prems" have "digits (n div 10) = digits (m div 10)"
        and d: "''0123456789'' ! (n mod 10) = ''0123456789'' ! (m mod 10)"
        by (simp_all add: digits.simps [of n] digits.simps [of m])
      then have "n div 10 = m div 10" using "1.IH" [OF n] by simp
      moreover have "n mod 10 = m mod 10"
        using d by (intro digit_inj) simp_all
      ultimately show ?thesis by (metis div_mult_mod_eq)
    qed
  qed
qed

lemma number_string_inj: "number_string i = number_string j \<Longrightarrow> i = j"
proof -
  assume eq: "number_string i = number_string j"
  have no_minus: "digits n \<noteq> CHR ''-'' # xs" for n xs
    using digits_set [of n] by auto
  show ?thesis
  proof (cases "i < 0"; cases "j < 0")
    assume "i < 0" "j < 0"
    with eq have "nat (- i) = nat (- j)" by (simp add: number_string_def digits_inj)
    with \<open>i < 0\<close> \<open>j < 0\<close> show ?thesis by simp
  next
    assume "i < 0" "\<not> j < 0"
    with eq no_minus [of "nat j" "digits (nat (- i))"] show ?thesis
      by (simp add: number_string_def)
  next
    assume "\<not> i < 0" "j < 0"
    with eq no_minus [of "nat i" "digits (nat (- j))"] show ?thesis
      by (simp add: number_string_def)
  next
    assume "\<not> i < 0" "\<not> j < 0"
    with eq have "nat i = nat j" by (simp add: number_string_def digits_inj)
    with \<open>\<not> i < 0\<close> \<open>\<not> j < 0\<close> show ?thesis by simp
  qed
qed

lemma hexdigit_inj: "a < 16 \<Longrightarrow> b < 16 \<Longrightarrow> hexdigit a = hexdigit b \<Longrightarrow> a = b"
  using nth_eq_iff_index_eq [of "''0123456789ABCDEF''" a b] by (simp add: hexdigit_def)

lemma hexdigit_in: "a < 16 \<Longrightarrow> hexdigit a \<in> set ''0123456789ABCDEF''"
  using nth_mem [of a "''0123456789ABCDEF''"] by (simp add: hexdigit_def)

lemma char_halves: "(of_char c :: nat) div 16 < 16" "(of_char c :: nat) mod 16 < 16"
proof -
  have "(of_char c :: nat) < 256" by simp
  then show "(of_char c :: nat) div 16 < 16" by (simp add: div_less_iff_less_mult)
  show "(of_char c :: nat) mod 16 < 16" by simp
qed

lemma encode_char_no_slash: "CHR ''/'' \<notin> set (encode_char c)"
proof (cases "unreserved c")
  case True
  then have "c \<noteq> CHR ''/''" by (auto simp: unreserved_def)
  with True show ?thesis by (simp add: encode_char_def)
next
  case False
  with hexdigit_in [OF char_halves(1) [of c]] hexdigit_in [OF char_halves(2) [of c]]
  show ?thesis by (auto simp: encode_char_def)
qed

lemma encode_no_slash: "CHR ''/'' \<notin> set (encodeURIComponent s)"
  using encode_char_no_slash by (simp add: encodeURIComponent_def)

lemma encode_char_cancel:
  assumes "encode_char c @ x = encode_char d @ y"
  shows "c = d \<and> x = y"
proof -
  have pct: "\<not> unreserved CHR ''%''" by (simp add: unreserved_def)
  show ?thesis
  proof (cases "unreserved c"; cases "unreserved d")
    assume "unreserved c" "unreserved d"
    with assms show ?thesis by (simp add: encode_char_def)
  next
    assume "unreserved c" "\<not> unreserved d"
    with assms pct show ?thesis by (auto simp: encode_char_def)
  next
    assume "\<not> unreserved c" "unreserved d"
    with assms pct show ?thesis by (auto simp: encode_char_def)
  next
    assume "\<not> unreserved c" "\<not> unreserved d"
    with assms have h: "hexdigit (of_char c div 16) = hexdigit (of_char d div 16)"
      and l: "hexdigit (of_char c mod 16) = hexdigit (of_char d mod 16)" and xy: "x = y"
      by (simp_all add: encode_char_def)
    have "(of_char c :: nat) div 16 = of_char d div 16"
      using h by (intro hexdigit_inj char_halves)
    moreover have "(of_char c :: nat) mod 16 = of_char d mod 16"
      using l by (intro hexdigit_inj char_halves)
    ultimately have "(of_char c :: nat) = of_char d" by (metis div_mult_mod_eq)
    then show ?thesis using xy by simp
  qed
qed

lemma encode_char_nonempty: "encode_char c \<noteq> []"
  by (simp add: encode_char_def)

lemma encode_inj: "encodeURIComponent s = encodeURIComponent t \<Longrightarrow> s = t"
proof (induction s arbitrary: t)
  case Nil
  then show ?case
    by (cases t) (simp_all add: encodeURIComponent_def encode_char_nonempty)
next
  case (Cons c s)
  show ?case
  proof (cases t)
    case Nil
    with Cons.prems show ?thesis by (simp add: encodeURIComponent_def encode_char_nonempty)
  next
    case (Cons d t')
    with Cons.prems have "encode_char c @ encodeURIComponent s
        = encode_char d @ encodeURIComponent t'"
      by (simp add: encodeURIComponent_def)
    then have "c = d \<and> encodeURIComponent s = encodeURIComponent t'"
      by (rule encode_char_cancel)
    with Cons.IH [of t'] Cons show ?thesis by simp
  qed
qed

lemma split_at_first:
  "c \<notin> set xs \<Longrightarrow> c \<notin> set ys \<Longrightarrow> xs @ c # r = ys @ c # r' \<Longrightarrow> xs = ys \<and> r = r'"
proof (induction xs arbitrary: ys)
  case Nil
  then show ?case by (cases ys) auto
next
  case (Cons x xs)
  then show ?case by (cases ys) auto
qed

lemma photo_object_key_inj:
  assumes "photo_object_key b t = photo_object_key b' t'"
  shows "b = b' \<and> t = t'"
proof -
  from assms have "encodeURIComponent b @ CHR ''/'' # (number_string t @ ''.img'')
      = encodeURIComponent b' @ CHR ''/'' # (number_string t' @ ''.img'')"
    by (simp add: photo_object_key_def)
  from split_at_first [OF encode_no_slash encode_no_slash this]
  have "encodeURIComponent b = encodeURIComponent b'" and "number_string t = number_string t'"
    by simp_all
  then show ?thesis by (simp add: encode_inj number_string_inj)
qed

lemma encode_unreserved: "list_all unreserved s \<Longrightarrow> encodeURIComponent s = s"
  by (induction s) (simp_all add: encodeURIComponent_def encode_char_def)

lemma photo_post_throwing_none:
  "handleBinPhotoPost_throwing None request binId timestamp now env
     = (Inr (fst (handleBinPhotoPost request binId timestamp now env)),
        snd (handleBinPhotoPost request binId timestamp now env))"
  by (simp add: handleBinPhotoPost_throwing_def handleBinPhotoPost_def Let_def split_beta)

section \<open>The properties\<close>

text \<open>
  \<^bold>\<open>C1\<close>, as the code has it. An upsert of a payload against a bin leaves a record, which
  it returns, and in it each of \<^verbatim>\<open>case_code\<close>, \<^verbatim>\<open>bin_type\<close>, \<^verbatim>\<open>notes\<close> and
  \<^verbatim>\<open>photo_key\<close> is the provided value whenever that value is a string (the empty string
  included); when the provided value is \<^verbatim>\<open>null\<close> or \<^verbatim>\<open>undefined\<close>, or the key is
  absent, it is the existing record's value if a record existed, else \<^verbatim>\<open>NULL\<close>. Whether
  the value is \<^verbatim>\<open>null\<close>/\<^verbatim>\<open>undefined\<close> decides, neither the presence of the key nor
  the truthiness of the value.
\<close>

theorem upsert_field_values:
  "field_rule (Str s) existing f = Some s
   \<and> (\<exists>r. upsertBinRow env binId data now = (Some r, snd (upsertBinRow env binId data now))
     \<and> getBinRow (snd (upsertBinRow env binId data now)) binId = Some r
     \<and> case_code r = field_rule (property data ''case_code'') (getBinRow env binId) case_code
     \<and> bin_type r = field_rule (property data ''bin_type'') (getBinRow env binId) bin_type
     \<and> notes r = field_rule (property data ''notes'') (getBinRow env binId) notes
     \<and> photo_key r
          = field_rule (property data ''photo_key'') (getBinRow env binId) photo_key)"
proof -
  have "upsertBinRow env binId data now
          = (Some (merged_row env binId data now), snd (upsertBinRow env binId data now))"
    using upsert_fst [of env binId data now] by (simp add: prod_eq_iff)
  moreover have "field_rule (Str s) existing f = Some s"
    by (simp add: field_rule_def)
  ultimately show ?thesis
    using upsert_lookup [of env binId data now] by (simp add: merged_row_def)
qed

text \<open>The empty string overwrites \<^verbatim>\<open>notes\<close>, the \<^verbatim>\<open>null\<close> given for \<^verbatim>\<open>bin_type\<close> keeps
  the old type, the absent \<^verbatim>\<open>case_code\<close> keeps the old code.\<close>

theorem upsert_field_values_witness:
  "\<exists>r. getBinRow (snd (upsertBinRow
            \<lparr>BINS_DB = [\<lparr>bin_id = ''b1'', case_code = Some ''C1'', bin_type = Some ''plastic'',
                         notes = Some ''x'', photo_key = None, updated_at = Some 5\<rparr>],
             BINS_BUCKET = Map.empty\<rparr>
            ''b1'' [(''notes'', Str []), (''bin_type'', Null)] 7)) ''b1'' = Some r
     \<and> case_code r = Some ''C1'' \<and> bin_type r = Some ''plastic'' \<and> notes r = Some []
     \<and> photo_key r = None"
  using upsert_field_values
    [of _ _ _ "\<lparr>BINS_DB = [\<lparr>bin_id = ''b1'', case_code = Some ''C1'', bin_type = Some ''plastic'',
                         notes = Some ''x'', photo_key = None, updated_at = Some 5\<rparr>],
             BINS_BUCKET = Map.empty\<rparr>"
        "''b1''" "[(''notes'', Str []), (''bin_type'', Null)]" 7, THEN conjunct2]
  by (auto simp: field_rule_def property_def getBinRow_def)

text \<open>The claim as the specification words it fails: the payload \<^verbatim>\<open>{notes: null}\<close> has
  the key \<^verbatim>\<open>notes\<close>, and the stored notes stay \<^verbatim>\<open>"x"\<close> instead of becoming the provided
  \<^verbatim>\<open>null\<close>.\<close>

theorem upsert_key_presence_counterexample:
  "map_of [(''notes'', Null)] ''notes'' = Some Null
   \<and> map_option notes (getBinRow (snd (upsertBinRow
        \<lparr>BINS_DB = [\<lparr>bin_id = ''b1'', case_code = None, bin_type = None,
                     notes = Some ''x'', photo_key = None, updated_at = Some 5\<rparr>],
         BINS_BUCKET = Map.empty\<rparr>
        ''b1'' [(''notes'', Null)] 7)) ''b1'') = Some (Some ''x'')
   \<and> to_column Null \<noteq> Some ''x''"
  by (simp add: upsertBinRow_def Let_def getBinRow_def resolved_def property_def sql_update_def)

text \<open>
  \<^bold>\<open>C2\<close>. A \<^verbatim>\<open>GET\<close> of \<^verbatim>\<open>/api/bin/{id}\<close>, or of \<^verbatim>\<open>/bin/{id}\<close> with \<^verbatim>\<open>format=json\<close>,
  changes nothing and is answered by \<open>handleBinJsonGet\<close>: with 404 and the body
  \<^verbatim>\<open>{status: "not_found", bin_id, message}\<close> when the bin has no record, and otherwise
  with 200 and the body \<^verbatim>\<open>{status: "ok", bin_id, case_code, bin_type, notes, photo_url,
  updated_at}\<close> carrying the record's values, where \<^verbatim>\<open>photo_url\<close> is non-null exactly
  when the record has a photo key and is then \<^verbatim>\<open>/bin/{id}/photo\<close> with the id
  URI-encoded. The code tests the key for truth, so a key is a non-empty string; in a
  table without empty keys, and the worker stores none (\<open>serve_photo_keys_nonempty\<close>),
  that is the same as the column not being \<^verbatim>\<open>NULL\<close>.
\<close>

theorem json_get_response:
  assumes "method request = ''GET''"
    and "path_segments (pathname request) = [''api'', ''bin'', binId]
         \<or> path_segments (pathname request) = [''bin'', binId]
            \<and> map_of (searchParams request) ''format'' = Some ''json''"
  shows "fetch request clock env = (Inr (handleBinJsonGet binId env), env)
    \<and> (case getBinRow env binId of
          None \<Rightarrow>
            handleBinJsonGet binId env =
              \<lparr>status = 404,
               headers = [(''Content-Type'', ''application/json; charset=utf-8'')],
               body = Json (JObject [(''status'', JString ''not_found''),
                                     (''bin_id'', JString binId),
                                     (''message'', JString ''Bin not registered yet'')])\<rparr>
        | Some row \<Rightarrow>
            (\<exists>u. handleBinJsonGet binId env =
                    \<lparr>status = 200,
                     headers = [(''Content-Type'', ''application/json; charset=utf-8'')],
                     body = Json (JObject [(''status'', JString ''ok''),
                                           (''bin_id'', JString binId),
                                           (''case_code'', json_text (case_code row)),
                                           (''bin_type'', json_text (bin_type row)),
                                           (''notes'', json_text (notes row)),
                                           (''photo_url'', u),
                                           (''updated_at'', json_int (updated_at row))])\<rparr>
                 \<and> (u \<noteq> JNull \<longleftrightarrow> (\<exists>key. photo_key row = Some key \<and> key \<noteq> []))
                 \<and> (photo_keys_nonempty env \<longrightarrow> (u \<noteq> JNull \<longleftrightarrow> photo_key row \<noteq> None))
                 \<and> (u = JNull \<or> u = JString (photo_url binId))))"
proof -
  have "route request = JsonGet binId"
    using assms by (auto simp: route_api route_bin or_default_def)
  then have "fetch request clock env = (Inr (handleBinJsonGet binId env), env)"
    by (simp add: fetch_def)
  moreover have "getBinRow env binId = None \<Longrightarrow> ?thesis"
    using calculation by (simp add: handleBinJsonGet_def jsonResponse_def)
  moreover have "getBinRow env binId = Some row \<Longrightarrow> ?thesis" for row
    using calculation getBinRow_bin_id [of env binId row] photo_key_of_row [of env binId row]
    by (cases "photo_key row") (auto simp: handleBinJsonGet_def jsonResponse_def)
  ultimately show ?thesis by (cases "getBinRow env binId") blast+
qed

theorem json_get_response_witness:
  "path_segments ''/bin/b1'' = [''bin'', ''b1'']
   \<and> fetch \<lparr>method = ''GET'', pathname = ''/bin/b1'', searchParams = [(''format'', ''json'')],
             header_content_type = None, json = None, arrayBuffer = []\<rparr>
        (readings 1000 1001)
        \<lparr>BINS_DB = [\<lparr>bin_id = ''b1'', case_code = Some ''C1'', bin_type = None,
                     notes = None, photo_key = Some ''bins/b1/5.img'',
                     updated_at = Some 5\<rparr>],
         BINS_BUCKET = Map.empty\<rparr>
      = (Inr \<lparr>status = 200,
              headers = [(''Content-Type'', ''application/json; charset=utf-8'')],
              body = Json (JObject [(''status'', JString ''ok''),
                                    (''bin_id'', JString ''b1''),
                                    (''case_code'', JString ''C1''),
                                    (''bin_type'', JNull),
                                    (''notes'', JNull),
                                    (''photo_url'', JString ''/bin/b1/photo''),
                                    (''updated_at'', JNumber 5)])\<rparr>,
         \<lparr>BINS_DB = [\<lparr>bin_id = ''b1'', case_code = Some ''C1'', bin_type = None,
                     notes = None, photo_key = Some ''bins/b1/5.img'',
                     updated_at = Some 5\<rparr>],
          BINS_BUCKET = Map.empty\<rparr>)
   \<and> fetch \<lparr>method = ''GET'', pathname = ''/api/bin/b2'', searchParams = [],
             header_content_type = None, json = None, arrayBuffer = []\<rparr>
        (readings 1000 1001)
        \<lparr>BINS_DB = [], BINS_BUCKET = Map.empty\<rparr>
      = (Inr \<lparr>status = 404,
              headers = [(''Content-Type'', ''application/json; charset=utf-8'')],
              body = Json (JObject [(''status'', JString ''not_found''),
                                    (''bin_id'', JString ''b2''),
                                    (''message'', JString ''Bin not registered yet'')])\<rparr>,
         \<lparr>BINS_DB = [], BINS_BUCKET = Map.empty\<rparr>)
   \<and> photo_keys_nonempty
        \<lparr>BINS_DB = [\<lparr>bin_id = ''b1'', case_code = Some ''C1'', bin_type = None,
                     notes = None, photo_key = Some ''bins/b1/5.img'',
                     updated_at = Some 5\<rparr>],
         BINS_BUCKET = Map.empty\<rparr>"
proof (intro conjI)
  show "path_segments ''/bin/b1'' = [''bin'', ''b1'']"
    by (simp add: path_segments_def strip_slashes_def)
  let ?env = "\<lparr>BINS_DB = [\<lparr>bin_id = ''b1'', case_code = Some ''C1'', bin_type = None,
                     notes = None, photo_key = Some ''bins/b1/5.img'',
                     updated_at = Some 5\<rparr>],
         BINS_BUCKET = Map.empty\<rparr>"
  let ?request = "\<lparr>method = ''GET'', pathname = ''/bin/b1'',
             searchParams = [(''format'', ''json'')],
             header_content_type = None, json = None, arrayBuffer = []\<rparr>"
  show "fetch ?request (readings 1000 1001) ?env
      = (Inr \<lparr>status = 200,
              headers = [(''Content-Type'', ''application/json; charset=utf-8'')],
              body = Json (JObject [(''status'', JString ''ok''),
                                    (''bin_id'', JString ''b1''),
                                    (''case_code'', JString ''C1''),
                                    (''bin_type'', JNull),
                                    (''notes'', JNull),
                                    (''photo_url'', JString ''/bin/b1/photo''),
                                    (''updated_at'', JNumber 5)])\<rparr>, ?env)"
    using json_get_response [of ?request "''b1''" "readings 1000 1001" ?env]
    by (auto simp: path_segments_def strip_slashes_def getBinRow_def photo_url_def
        encodeURIComponent_def encode_char_def unreserved_def)
  let ?empty = "\<lparr>BINS_DB = [], BINS_BUCKET = Map.empty\<rparr>"
  let ?api = "\<lparr>method = ''GET'', pathname = ''/api/bin/b2'', searchParams = [],
             header_content_type = None, json = None, arrayBuffer = []\<rparr>"
  show "fetch ?api (readings 1000 1001) ?empty
      = (Inr \<lparr>status = 404,
              headers = [(''Content-Type'', ''application/json; charset=utf-8'')],
              body = Json (JObject [(''status'', JString ''not_found''),
                                    (''bin_id'', JString ''b2''),
                                    (''message'', JString ''Bin not registered yet'')])\<rparr>,
         ?empty)"
    using json_get_response [of ?api "''b2''" "readings 1000 1001" ?empty]
    by (simp add: path_segments_def strip_slashes_def getBinRow_def)
  show "photo_keys_nonempty ?env"
    by (simp add: photo_keys_nonempty_def)
qed

text \<open>
  \<^bold>\<open>C3\<close>. A \<^verbatim>\<open>POST\<close> to \<^verbatim>\<open>/bin/{id}\<close> whose body \<^verbatim>\<open>request.json()\<close> cannot parse is
  answered 400 with an error message, and the environment it leaves is the one it found:
  no record is changed and none is created.
\<close>

theorem meta_post_bad_json:
  assumes "method request = ''POST''"
    and "path_segments (pathname request) = [''bin'', binId]"
    and "json request = None"
  shows "fetch request clock env =
           (Inr (jsonResponse
                   (JObject [(''error'',
                      JString ''Expected JSON body with fields case_code/bin_type/notes'')])
                   400),
            env)
         \<and> status_of (fetch request clock env) = Some 400"
proof -
  have "route request = MetaPost binId" using assms(1,2) by (simp add: route_bin)
  then have "fetch request clock env = handleBinMetaPost request binId (clock 0) env"
    by (simp add: fetch_def)
  then show ?thesis using assms(3)
    by (simp add: meta_post_no_json status_of_def jsonResponse_def)
qed

theorem meta_post_bad_json_witness:
  "path_segments ''/bin/b1'' = [''bin'', ''b1'']
   \<and> fetch \<lparr>method = ''POST'', pathname = ''/bin/b1'', searchParams = [],
             header_content_type = Some ''text/plain'', json = None,
             arrayBuffer = ''not json''\<rparr>
        (readings 1000 1001)
        \<lparr>BINS_DB = [\<lparr>bin_id = ''b1'', case_code = None, bin_type = None,
                     notes = Some ''x'', photo_key = None, updated_at = Some 5\<rparr>],
         BINS_BUCKET = Map.empty\<rparr>
      = (Inr (jsonResponse
                (JObject [(''error'',
                   JString ''Expected JSON body with fields case_code/bin_type/notes'')])
                400),
         \<lparr>BINS_DB = [\<lparr>bin_id = ''b1'', case_code = None, bin_type = None,
                     notes = Some ''x'', photo_key = None, updated_at = Some 5\<rparr>],
          BINS_BUCKET = Map.empty\<rparr>)"
  using meta_post_bad_json
    [of "\<lparr>method = ''POST'', pathname = ''/bin/b1'', searchParams = [],
          header_content_type = Some ''text/plain'', json = None,
          arrayBuffer = ''not json''\<rparr>"
        "''b1''" "readings 1000 1001"
        "\<lparr>BINS_DB = [\<lparr>bin_id = ''b1'', case_code = None, bin_type = None,
                     notes = Some ''x'', photo_key = None, updated_at = Some 5\<rparr>],
          BINS_BUCKET = Map.empty\<rparr>"]
  by (simp add: path_segments_def strip_slashes_def)

text \<open>
  \<^bold>\<open>C4\<close>, as the code has it. A request to \<^verbatim>\<open>/api/bin/{id}\<close> with a method other than
  \<^verbatim>\<open>GET\<close>, and a request to \<^verbatim>\<open>/bin/{id}/photo\<close> with a method other than \<^verbatim>\<open>GET\<close>
  and \<^verbatim>\<open>POST\<close>, is answered 405 and changes nothing; a request to \<^verbatim>\<open>/\<close> is answered
  200 whatever its method.
\<close>

theorem method_not_allowed:
  "(path_segments (pathname request) = [''api'', ''bin'', binId] \<and> method request \<noteq> ''GET''
      \<longrightarrow> fetch request clock env = (Inr (text_response ''Method not allowed'' 405), env)
          \<and> status_of (fetch request clock env) = Some 405)
   \<and> (path_segments (pathname request) = [''bin'', binId, ''photo'']
        \<and> method request \<noteq> ''GET'' \<and> method request \<noteq> ''POST''
      \<longrightarrow> fetch request clock env = (Inr (text_response ''Method not allowed'' 405), env)
          \<and> status_of (fetch request clock env) = Some 405)
   \<and> (path_segments (pathname request) = []
      \<longrightarrow> fetch request clock env = (Inr (text_response ''Smart Bin Worker online'' 200), env)
          \<and> status_of (fetch request clock env) = Some 200)"
  by (simp add: route_api route_photo route_health fetch_def status_of_def text_response_def)

theorem method_not_allowed_witness:
  "path_segments ''/api/bin/b1'' = [''api'', ''bin'', ''b1'']
   \<and> status_of (fetch \<lparr>method = ''POST'', pathname = ''/api/bin/b1'', searchParams = [],
                        header_content_type = None, json = None, arrayBuffer = []\<rparr>
                  (readings 1000 1001) \<lparr>BINS_DB = [], BINS_BUCKET = Map.empty\<rparr>) = Some 405
   \<and> path_segments ''/bin/b1/photo'' = [''bin'', ''b1'', ''photo'']
   \<and> status_of (fetch \<lparr>method = ''DELETE'', pathname = ''/bin/b1/photo'', searchParams = [],
                        header_content_type = None, json = None, arrayBuffer = []\<rparr>
                  (readings 1000 1001) \<lparr>BINS_DB = [], BINS_BUCKET = Map.empty\<rparr>) = Some 405
   \<and> path_segments ''/'' = []
   \<and> status_of (fetch \<lparr>method = ''POST'', pathname = ''/'', searchParams = [],
                        header_content_type = None, json = None, arrayBuffer = []\<rparr>
                  (readings 1000 1001) \<lparr>BINS_DB = [], BINS_BUCKET = Map.empty\<rparr>) = Some 200"
  using method_not_allowed
      [of "\<lparr>method = ''POST'', pathname = ''/api/bin/b1'', searchParams = [],
            header_content_type = None, json = None, arrayBuffer = []\<rparr>"
          "''b1''" "readings 1000 1001" "\<lparr>BINS_DB = [], BINS_BUCKET = Map.empty\<rparr>"]
    method_not_allowed
      [of "\<lparr>method = ''DELETE'', pathname = ''/bin/b1/photo'', searchParams = [],
            header_content_type = None, json = None, arrayBuffer = []\<rparr>"
          "''b1''" "readings 1000 1001" "\<lparr>BINS_DB = [], BINS_BUCKET = Map.empty\<rparr>"]
    method_not_allowed
      [of "\<lparr>method = ''POST'', pathname = ''/'', searchParams = [],
            header_content_type = None, json = None, arrayBuffer = []\<rparr>"
          "''b1''" "readings 1000 1001" "\<lparr>BINS_DB = [], BINS_BUCKET = Map.empty\<rparr>"]
  by (simp add: path_segments_def strip_slashes_def status_of_def text_response_def)

text \<open>The claim as the specification words it fails on two of the four paths:
  \<^verbatim>\<open>POST /\<close> is answered 200, and \<^verbatim>\<open>PUT /bin/b1\<close> is answered 404.\<close>

theorem method_not_allowed_counterexample:
  "path_segments ''/'' = []
   \<and> status_of (fetch \<lparr>method = ''POST'', pathname = ''/'', searchParams = [],
                        header_content_type = None, json = None, arrayBuffer = []\<rparr>
                  (readings 1000 1001) \<lparr>BINS_DB = [], BINS_BUCKET = Map.empty\<rparr>) = Some 200
   \<and> path_segments ''/bin/b1'' = [''bin'', ''b1'']
   \<and> status_of (fetch \<lparr>method = ''PUT'', pathname = ''/bin/b1'', searchParams = [],
                        header_content_type = None, json = None, arrayBuffer = []\<rparr>
                  (readings 1000 1001) \<lparr>BINS_DB = [], BINS_BUCKET = Map.empty\<rparr>) = Some 404"
  by (simp add: path_segments_def strip_slashes_def route_def segment_def fetch_def
      status_of_def text_response_def)

text \<open>
  \<^bold>\<open>C5\<close>. The code does not do what the claim says for a path with segments beyond
  \<^verbatim>\<open>/api/bin/{id}\<close> or \<^verbatim>\<open>/bin/{id}/photo\<close>: \<^verbatim>\<open>GET /api/bin/b1/extra\<close> reaches the JSON
  read (and is answered with its JSON 404, not the plain-text one), and
  \<^verbatim>\<open>POST /bin/b1/photo/extra\<close> reaches the photo upload, which stores the blob and
  creates the record.
\<close>

theorem extra_segments_reach_handlers:
  "path_segments ''/api/bin/b1/extra'' = [''api'', ''bin'', ''b1'', ''extra'']
   \<and> route \<lparr>method = ''GET'', pathname = ''/api/bin/b1/extra'', searchParams = [],
             header_content_type = None, json = None, arrayBuffer = []\<rparr> = JsonGet ''b1''
   \<and> fst (fetch \<lparr>method = ''GET'', pathname = ''/api/bin/b1/extra'', searchParams = [],
                  header_content_type = None, json = None, arrayBuffer = []\<rparr>
             (readings 1000 1001) \<lparr>BINS_DB = [], BINS_BUCKET = Map.empty\<rparr>)
       = Inr \<lparr>status = 404,
              headers = [(''Content-Type'', ''application/json; charset=utf-8'')],
              body = Json (JObject [(''status'', JString ''not_found''),
                                    (''bin_id'', JString ''b1''),
                                    (''message'', JString ''Bin not registered yet'')])\<rparr>
   \<and> route \<lparr>method = ''POST'', pathname = ''/bin/b1/photo/extra'', searchParams = [],
             header_content_type = None, json = None, arrayBuffer = ''JPEG''\<rparr>
       = PhotoPost ''b1''
   \<and> BINS_DB (snd (fetch \<lparr>method = ''POST'', pathname = ''/bin/b1/photo/extra'',
                           searchParams = [], header_content_type = None, json = None,
                           arrayBuffer = ''JPEG''\<rparr>
                      (readings 1000 1001) \<lparr>BINS_DB = [], BINS_BUCKET = Map.empty\<rparr>))
       = [\<lparr>bin_id = ''b1'', case_code = None, bin_type = None, notes = None,
           photo_key = Some ''bins/b1/1000.img'', updated_at = Some 1001\<rparr>]"
proof (intro conjI)
  show "path_segments ''/api/bin/b1/extra'' = [''api'', ''bin'', ''b1'', ''extra'']"
    by (simp add: path_segments_def strip_slashes_def)
  show r1: "route \<lparr>method = ''GET'', pathname = ''/api/bin/b1/extra'', searchParams = [],
             header_content_type = None, json = None, arrayBuffer = []\<rparr> = JsonGet ''b1''"
    by (simp add: route_def path_segments_def strip_slashes_def segment_def)
  show "fst (fetch \<lparr>method = ''GET'', pathname = ''/api/bin/b1/extra'', searchParams = [],
                  header_content_type = None, json = None, arrayBuffer = []\<rparr>
             (readings 1000 1001) \<lparr>BINS_DB = [], BINS_BUCKET = Map.empty\<rparr>)
       = Inr \<lparr>status = 404,
              headers = [(''Content-Type'', ''application/json; charset=utf-8'')],
              body = Json (JObject [(''status'', JString ''not_found''),
                                    (''bin_id'', JString ''b1''),
                                    (''message'', JString ''Bin not registered yet'')])\<rparr>"
    by (simp add: fetch_def r1 handleBinJsonGet_def getBinRow_def jsonResponse_def)
  show r2: "route \<lparr>method = ''POST'', pathname = ''/bin/b1/photo/extra'', searchParams = [],
             header_content_type = None, json = None, arrayBuffer = ''JPEG''\<rparr>
       = PhotoPost ''b1''"
    by (simp add: route_def path_segments_def strip_slashes_def segment_def)
  have k: "photo_object_key ''b1'' 1000 = ''bins/b1/1000.img''"
    by (simp add: photo_object_key_def encodeURIComponent_def encode_char_def unreserved_def
        number_string_def digits.simps)
  show "BINS_DB (snd (fetch \<lparr>method = ''POST'', pathname = ''/bin/b1/photo/extra'',
                           searchParams = [], header_content_type = None, json = None,
                           arrayBuffer = ''JPEG''\<rparr>
                      (readings 1000 1001) \<lparr>BINS_DB = [], BINS_BUCKET = Map.empty\<rparr>))
       = [\<lparr>bin_id = ''b1'', case_code = None, bin_type = None, notes = None,
           photo_key = Some ''bins/b1/1000.img'', updated_at = Some 1001\<rparr>]"
    by (simp add: fetch_def r2 handleBinPhotoPost_def Let_def split_beta k readings_def
        upsertBinRow_def getBinRow_def sql_insert_def resolved_def property_def bucket_put_def)
qed

text \<open>
  \<^bold>\<open>C6\<close>. A \<^verbatim>\<open>GET\<close> of \<^verbatim>\<open>/bin/{id}/photo\<close> changes nothing and is answered 404 when the
  bin has no record, when its record has no photo key (the column is \<^verbatim>\<open>NULL\<close>, or
  empty) and when the bucket has no object under the key; otherwise it is answered 200
  with the bytes of the object, a \<^verbatim>\<open>Content-Type\<close> that is the stored one, or
  \<^verbatim>\<open>image/jpeg\<close> when none (or an empty one) is stored, and a \<^verbatim>\<open>Cache-Control\<close>
  exactly when a (non-empty) one is stored, with its value. In a table without empty
  keys, and the worker stores none (\<open>serve_photo_keys_nonempty\<close>), every key that is
  not \<^verbatim>\<open>NULL\<close> and has its object in the bucket is answered 200.
\<close>

theorem photo_get_response:
  assumes "method request = ''GET''"
    and "path_segments (pathname request) = [''bin'', binId, ''photo'']"
  shows "\<exists>resp. fetch request clock env = (Inr resp, env)
    \<and> (case getBinRow env binId of
          None \<Rightarrow> resp = text_response ''No photo for this bin'' 404 \<and> status resp = 404
        | Some row \<Rightarrow>
           (case photo_key row of
              None \<Rightarrow> resp = text_response ''No photo for this bin'' 404 \<and> status resp = 404
            | Some key \<Rightarrow>
               (case BINS_BUCKET env key of
                  None \<Rightarrow> status resp = 404
                | Some object \<Rightarrow>
                    if key = []
                    then resp = text_response ''No photo for this bin'' 404 \<and> status resp = 404
                    else status resp = 200 \<and> body resp = Stream (object_body object)
                      \<and> headers resp =
                          (''Content-Type'',
                             case stored_content_type object of
                               None \<Rightarrow> ''image/jpeg''
                             | Some ct \<Rightarrow> if ct = [] then ''image/jpeg'' else ct)
                          # (case stored_cache_control object of
                               None \<Rightarrow> []
                             | Some cc \<Rightarrow> if cc = [] then [] else [(''Cache-Control'', cc)]))))
    \<and> (\<forall>row key object.
          photo_keys_nonempty env \<and> getBinRow env binId = Some row
          \<and> photo_key row = Some key \<and> BINS_BUCKET env key = Some object
          \<longrightarrow> status resp = 200 \<and> body resp = Stream (object_body object))"
proof -
  have "route request = PhotoGet binId" using assms by (simp add: route_photo)
  then have f: "fetch request clock env = (Inr (handleBinPhotoGet binId env), env)"
    by (simp add: fetch_def)
  have "photo_key row \<noteq> Some []"
    if "photo_keys_nonempty env" "getBinRow env binId = Some row" for row
    using that by (rule photo_key_of_row)
  then show ?thesis
    unfolding f
    by (auto simp: handleBinPhotoGet_def text_response_def stored_content_type_def
        stored_cache_control_def or_default_def Let_def
        split: option.splits)
qed

text \<open>A stored PNG with a cache policy is served as stored; a record without a photo
  key gets 404.\<close>

theorem photo_get_response_witness:
  "path_segments ''/bin/b1/photo'' = [''bin'', ''b1'', ''photo'']
   \<and> fst (fetch \<lparr>method = ''GET'', pathname = ''/bin/b1/photo'', searchParams = [],
                  header_content_type = None, json = None, arrayBuffer = []\<rparr>
            (readings 1000 1001)
            \<lparr>BINS_DB = [\<lparr>bin_id = ''b1'', case_code = None, bin_type = None, notes = None,
                         photo_key = Some ''bins/b1/5.img'', updated_at = Some 5\<rparr>],
             BINS_BUCKET = [''bins/b1/5.img'' \<mapsto>
                \<lparr>object_body = ''PNG'',
                 httpMetadata = Some \<lparr>contentType = Some ''image/png'',
                                      cacheControl = Some ''no-store''\<rparr>\<rparr>]\<rparr>)
       = Inr \<lparr>status = 200,
              headers = [(''Content-Type'', ''image/png''), (''Cache-Control'', ''no-store'')],
              body = Stream ''PNG''\<rparr>
   \<and> status_of (fetch \<lparr>method = ''GET'', pathname = ''/bin/b1/photo'', searchParams = [],
                  header_content_type = None, json = None, arrayBuffer = []\<rparr>
            (readings 1000 1001)
            \<lparr>BINS_DB = [\<lparr>bin_id = ''b1'', case_code = None, bin_type = None, notes = None,
                         photo_key = None, updated_at = Some 5\<rparr>],
             BINS_BUCKET = Map.empty\<rparr>) = Some 404
   \<and> photo_keys_nonempty
        \<lparr>BINS_DB = [\<lparr>bin_id = ''b1'', case_code = None, bin_type = None, notes = None,
                     photo_key = Some ''bins/b1/5.img'', updated_at = Some 5\<rparr>],
         BINS_BUCKET = [''bins/b1/5.img'' \<mapsto>
            \<lparr>object_body = ''PNG'',
             httpMetadata = Some \<lparr>contentType = Some ''image/png'',
                                  cacheControl = Some ''no-store''\<rparr>\<rparr>]\<rparr>"
proof (intro conjI)
  let ?request = "\<lparr>method = ''GET'', pathname = ''/bin/b1/photo'', searchParams = [],
                  header_content_type = None, json = None, arrayBuffer = []\<rparr>"
  show p: "path_segments ''/bin/b1/photo'' = [''bin'', ''b1'', ''photo'']"
    by (simp add: path_segments_def strip_slashes_def)
  let ?env = "\<lparr>BINS_DB = [\<lparr>bin_id = ''b1'', case_code = None, bin_type = None, notes = None,
                         photo_key = Some ''bins/b1/5.img'', updated_at = Some 5\<rparr>],
             BINS_BUCKET = [''bins/b1/5.img'' \<mapsto>
                \<lparr>object_body = ''PNG'',
                 httpMetadata = Some \<lparr>contentType = Some ''image/png'',
                                      cacheControl = Some ''no-store''\<rparr>\<rparr>]\<rparr>"
  show "fst (fetch ?request (readings 1000 1001) ?env)
       = Inr \<lparr>status = 200,
              headers = [(''Content-Type'', ''image/png''), (''Cache-Control'', ''no-store'')],
              body = Stream ''PNG''\<rparr>"
    using photo_get_response [of ?request "''b1''" "readings 1000 1001" ?env] p
    by (auto simp: getBinRow_def stored_content_type_def stored_cache_control_def)
  let ?bare = "\<lparr>BINS_DB = [\<lparr>bin_id = ''b1'', case_code = None, bin_type = None, notes = None,
                         photo_key = None, updated_at = Some 5\<rparr>],
             BINS_BUCKET = Map.empty\<rparr>"
  show "status_of (fetch ?request (readings 1000 1001) ?bare) = Some 404"
    using photo_get_response [of ?request "''b1''" "readings 1000 1001" ?bare] p
    by (auto simp: getBinRow_def status_of_def)
  show "photo_keys_nonempty ?env"
    by (simp add: photo_keys_nonempty_def)
qed

text \<open>
  \<^bold>\<open>C7\<close>, as the code has it. The key of an uploaded photo embeds the bin id
  (URI-encoded) and the milliseconds read at the upload, as \<^verbatim>\<open>bins/<id>/<timestamp>.img\<close>;
  two uploads have the same key only if they are for the same bin and read the same
  millisecond. A \<^verbatim>\<open>POST\<close> to \<^verbatim>\<open>/bin/{id}/photo\<close> stores the blob under that key (with
  the request's content type, or \<^verbatim>\<open>application/octet-stream\<close>), leaving every other
  object of the bucket alone, and then upserts the key as the record's \<^verbatim>\<open>photo_key\<close>:
  when the put rejects nothing at all is written, when the database rejects before its
  write the blob is stored and the table is as it was. The response, 200, echoes the
  bin id, the key, the record as read back, and a photo URL, which for a bin id of
  unreserved characters only is \<^verbatim>\<open>/bin/{id}/photo\<close>.
\<close>

theorem photo_post_result:
  "photo_object_key binId timestamp
     = ''bins/'' @ encodeURIComponent binId @ ''/'' @ number_string timestamp @ ''.img''
   \<and> (\<forall>binId' timestamp'.
         photo_object_key binId' timestamp' = photo_object_key binId timestamp
         \<longrightarrow> binId' = binId \<and> timestamp' = timestamp)
   \<and> (method request = ''POST''
        \<and> path_segments (pathname request) = [''bin'', binId, ''photo'']
      \<longrightarrow> (\<exists>row url env1 env2.
             env1 = env\<lparr>BINS_BUCKET := (BINS_BUCKET env)
                      (photo_object_key binId (clock 0) \<mapsto>
                         \<lparr>object_body = arrayBuffer request,
                          httpMetadata = Some
                            \<lparr>contentType = Some
                               (case header_content_type request of
                                  None \<Rightarrow> ''application/octet-stream''
                                | Some ct \<Rightarrow>
                                    if ct = [] then ''application/octet-stream'' else ct),
                             cacheControl = None\<rparr>\<rparr>)\<rparr>
             \<and> env2 = snd (upsertBinRow env1 binId
                         [(''photo_key'', Str (photo_object_key binId (clock 0)))] (clock 1))
             \<and> fetch request clock env =
                 (Inr \<lparr>status = 200,
                       headers = [(''Content-Type'', ''application/json; charset=utf-8'')],
                       body = Json (JObject
                         [(''status'', JString ''ok''), (''bin_id'', JString binId),
                          (''photo_key'', JString (photo_object_key binId (clock 0))),
                          (''photo_url'', JString url),
                          (''bin'', row_json (Some row))])\<rparr>,
                  env2)
             \<and> (list_all unreserved binId \<longrightarrow> url = ''/bin/'' @ binId @ ''/photo'')
             \<and> getBinRow env2 binId = Some row
             \<and> photo_key row = Some (photo_object_key binId (clock 0))
             \<and> BINS_BUCKET env2 = BINS_BUCKET env1
             \<and> handleBinPhotoPost_throwing None request binId (clock 0) (clock 1) env
                 = (Inr \<lparr>status = 200,
                         headers = [(''Content-Type'', ''application/json; charset=utf-8'')],
                         body = Json (JObject
                           [(''status'', JString ''ok''), (''bin_id'', JString binId),
                            (''photo_key'', JString (photo_object_key binId (clock 0))),
                            (''photo_url'', JString url),
                            (''bin'', row_json (Some row))])\<rparr>,
                    env2)
             \<and> handleBinPhotoPost_throwing (Some PutBlob) request binId (clock 0) (clock 1) env
                 = (Inl PutBlob, env)
             \<and> handleBinPhotoPost_throwing (Some SelectRow) request binId (clock 0) (clock 1) env
                 = (Inl SelectRow, env1)
             \<and> handleBinPhotoPost_throwing (Some WriteRow) request binId (clock 0) (clock 1) env
                 = (Inl WriteRow, env1)
             \<and> handleBinPhotoPost_throwing (Some ReadRowBack) request binId (clock 0) (clock 1)
                   env
                 = (Inl ReadRowBack, env2)
             \<and> BINS_DB env1 = BINS_DB env))"
proof (intro conjI impI allI)
  show "photo_object_key binId timestamp
     = ''bins/'' @ encodeURIComponent binId @ ''/'' @ number_string timestamp @ ''.img''"
    by (simp add: photo_object_key_def)
next
  fix binId' timestamp'
  assume "photo_object_key binId' timestamp' = photo_object_key binId timestamp"
  then have "binId' = binId \<and> timestamp' = timestamp" by (rule photo_object_key_inj)
  then show "binId' = binId" and "timestamp' = timestamp" by simp_all
next
  assume a: "method request = ''POST''
        \<and> path_segments (pathname request) = [''bin'', binId, ''photo'']"
  then have "route request = PhotoPost binId" by (simp add: route_photo)
  then have f: "fetch request clock env
      = (let (r, env') = handleBinPhotoPost request binId (clock 0) (clock 1) env
         in (Inr r, env'))"
    by (simp add: fetch_def)
  let ?key = "photo_object_key binId (clock 0)"
  let ?env1 = "bucket_put ?key (arrayBuffer request)
      (or_default (header_content_type request) ''application/octet-stream'') env"
  let ?env2 = "snd (upsertBinRow ?env1 binId [(''photo_key'', Str ?key)] (clock 1))"
  let ?row = "merged_row ?env1 binId [(''photo_key'', Str ?key)] (clock 1)"
  let ?resp = "\<lparr>status = 200,
                headers = [(''Content-Type'', ''application/json; charset=utf-8'')],
                body = Json (JObject
                  [(''status'', JString ''ok''), (''bin_id'', JString binId),
                   (''photo_key'', JString ?key),
                   (''photo_url'', JString (photo_url binId)),
                   (''bin'', row_json (Some ?row))])\<rparr>"
  have e1: "?env1 = env\<lparr>BINS_BUCKET := (BINS_BUCKET env)
                      (?key \<mapsto>
                         \<lparr>object_body = arrayBuffer request,
                          httpMetadata = Some
                            \<lparr>contentType = Some
                               (case header_content_type request of
                                  None \<Rightarrow> ''application/octet-stream''
                                | Some ct \<Rightarrow>
                                    if ct = [] then ''application/octet-stream'' else ct),
                             cacheControl = None\<rparr>\<rparr>)\<rparr>"
    by (simp add: bucket_put_def or_default_def)
  have h: "handleBinPhotoPost request binId (clock 0) (clock 1) env = (?resp, ?env2)"
    unfolding photo_post_eq by (simp add: Let_def jsonResponse_def)
  have f': "fetch request clock env = (Inr ?resp, ?env2)"
    unfolding f h by simp
  have u: "list_all unreserved binId \<longrightarrow> photo_url binId = ''/bin/'' @ binId @ ''/photo''"
    by (simp add: photo_url_def encode_unreserved)
  have g: "getBinRow ?env2 binId = Some ?row"
    by (simp add: upsert_lookup)
  have k: "photo_key ?row = Some ?key"
    by (simp add: merged_row_def property_def field_rule_def)
  have b: "BINS_BUCKET ?env2 = BINS_BUCKET ?env1"
    by (simp add: upsert_bucket)
  have t0: "handleBinPhotoPost_throwing None request binId (clock 0) (clock 1) env
      = (Inr ?resp, ?env2)"
    unfolding photo_post_throwing_none h by simp
  have t1: "handleBinPhotoPost_throwing (Some PutBlob) request binId (clock 0) (clock 1) env
      = (Inl PutBlob, env)"
    by (simp add: handleBinPhotoPost_throwing_def)
  have t2: "handleBinPhotoPost_throwing (Some SelectRow) request binId (clock 0) (clock 1) env
      = (Inl SelectRow, ?env1)"
    by (simp add: handleBinPhotoPost_throwing_def Let_def)
  have t3: "handleBinPhotoPost_throwing (Some WriteRow) request binId (clock 0) (clock 1) env
      = (Inl WriteRow, ?env1)"
    by (simp add: handleBinPhotoPost_throwing_def Let_def)
  have t4: "handleBinPhotoPost_throwing (Some ReadRowBack) request binId (clock 0) (clock 1) env
      = (Inl ReadRowBack, ?env2)"
    by (simp add: handleBinPhotoPost_throwing_def Let_def split_beta)
  have d: "BINS_DB ?env1 = BINS_DB env" by simp
  show "\<exists>row url env1 env2.
             env1 = env\<lparr>BINS_BUCKET := (BINS_BUCKET env)
                      (photo_object_key binId (clock 0) \<mapsto>
                         \<lparr>object_body = arrayBuffer request,
                          httpMetadata = Some
                            \<lparr>contentType = Some
                               (case header_content_type request of
                                  None \<Rightarrow> ''application/octet-stream''
                                | Some ct \<Rightarrow>
                                    if ct = [] then ''application/octet-stream'' else ct),
                             cacheControl = None\<rparr>\<rparr>)\<rparr>
             \<and> env2 = snd (upsertBinRow env1 binId
                         [(''photo_key'', Str (photo_object_key binId (clock 0)))] (clock 1))
             \<and> fetch request clock env =
                 (Inr \<lparr>status = 200,
                       headers = [(''Content-Type'', ''application/json; charset=utf-8'')],
                       body = Json (JObject
                         [(''status'', JString ''ok''), (''bin_id'', JString binId),
                          (''photo_key'', JString (photo_object_key binId (clock 0))),
                          (''photo_url'', JString url),
                          (''bin'', row_json (Some row))])\<rparr>,
                  env2)
             \<and> (list_all unreserved binId \<longrightarrow> url = ''/bin/'' @ binId @ ''/photo'')
             \<and> getBinRow env2 binId = Some row
             \<and> photo_key row = Some (photo_object_key binId (clock 0))
             \<and> BINS_BUCKET env2 = BINS_BUCKET env1
             \<and> handleBinPhotoPost_throwing None request binId (clock 0) (clock 1) env
                 = (Inr \<lparr>status = 200,
                         headers = [(''Content-Type'', ''application/json; charset=utf-8'')],
                         body = Json (JObject
                           [(''status'', JString ''ok''), (''bin_id'', JString binId),
                            (''photo_key'', JString (photo_object_key binId (clock 0))),
                            (''photo_url'', JString url),
                            (''bin'', row_json (Some row))])\<rparr>,
                    env2)
             \<and> handleBinPhotoPost_throwing (Some PutBlob) request binId (clock 0) (clock 1) env
                 = (Inl PutBlob, env)
             \<and> handleBinPhotoPost_throwing (Some SelectRow) request binId (clock 0) (clock 1) env
                 = (Inl SelectRow, env1)
             \<and> handleBinPhotoPost_throwing (Some WriteRow) request binId (clock 0) (clock 1) env
                 = (Inl WriteRow, env1)
             \<and> handleBinPhotoPost_throwing (Some ReadRowBack) request binId (clock 0) (clock 1)
                   env
                 = (Inl ReadRowBack, env2)
             \<and> BINS_DB env1 = BINS_DB env"
    apply (rule exI [of _ ?row])
    apply (rule exI [of _ "photo_url binId"])
    apply (rule exI [of _ ?env1])
    apply (rule exI [of _ ?env2])
    apply (intro conjI)
    subgoal by (rule e1)
    subgoal by (rule refl)
    subgoal by (rule f')
    subgoal by (rule u)
    subgoal by (rule g)
    subgoal by (rule k)
    subgoal by (rule b)
    subgoal by (rule t0)
    subgoal by (rule t1)
    subgoal by (rule t2)
    subgoal by (rule t3)
    subgoal by (rule t4)
    subgoal by (rule d)
    done
qed

text \<open>An upload for the bin \<^verbatim>\<open>b1\<close> at 1000, its upsert at 1001, into an empty store;
  and what is left when the put, or the database write, rejects.\<close>

theorem photo_post_result_witness:
  "path_segments ''/bin/b1/photo'' = [''bin'', ''b1'', ''photo'']
   \<and> list_all unreserved ''b1''
   \<and> photo_object_key ''b1'' 1000 = ''bins/b1/1000.img''
   \<and> fst (fetch \<lparr>method = ''POST'', pathname = ''/bin/b1/photo'', searchParams = [],
                  header_content_type = Some ''image/png'', json = None,
                  arrayBuffer = ''PNG''\<rparr>
            (readings 1000 1001) \<lparr>BINS_DB = [], BINS_BUCKET = Map.empty\<rparr>)
       = Inr \<lparr>status = 200,
              headers = [(''Content-Type'', ''application/json; charset=utf-8'')],
              body = Json (JObject
                [(''status'', JString ''ok''), (''bin_id'', JString ''b1''),
                 (''photo_key'', JString ''bins/b1/1000.img''),
                 (''photo_url'', JString ''/bin/b1/photo''),
                 (''bin'', JObject
                    [(''bin_id'', JString ''b1''), (''case_code'', JNull),
                     (''bin_type'', JNull), (''notes'', JNull),
                     (''photo_key'', JString ''bins/b1/1000.img''),
                     (''updated_at'', JNumber 1001)])])\<rparr>
   \<and> BINS_BUCKET (snd (fetch \<lparr>method = ''POST'', pathname = ''/bin/b1/photo'',
                  searchParams = [], header_content_type = Some ''image/png'', json = None,
                  arrayBuffer = ''PNG''\<rparr>
            (readings 1000 1001) \<lparr>BINS_DB = [], BINS_BUCKET = Map.empty\<rparr>))
       = [''bins/b1/1000.img'' \<mapsto>
            \<lparr>object_body = ''PNG'',
             httpMetadata = Some \<lparr>contentType = Some ''image/png'', cacheControl = None\<rparr>\<rparr>]
   \<and> handleBinPhotoPost_throwing (Some PutBlob)
         \<lparr>method = ''POST'', pathname = ''/bin/b1/photo'', searchParams = [],
          header_content_type = Some ''image/png'', json = None, arrayBuffer = ''PNG''\<rparr>
         ''b1'' 1000 1001 \<lparr>BINS_DB = [], BINS_BUCKET = Map.empty\<rparr>
       = (Inl PutBlob, \<lparr>BINS_DB = [], BINS_BUCKET = Map.empty\<rparr>)
   \<and> handleBinPhotoPost_throwing (Some WriteRow)
         \<lparr>method = ''POST'', pathname = ''/bin/b1/photo'', searchParams = [],
          header_content_type = Some ''image/png'', json = None, arrayBuffer = ''PNG''\<rparr>
         ''b1'' 1000 1001 \<lparr>BINS_DB = [], BINS_BUCKET = Map.empty\<rparr>
       = (Inl WriteRow,
          \<lparr>BINS_DB = [],
           BINS_BUCKET = [''bins/b1/1000.img'' \<mapsto>
             \<lparr>object_body = ''PNG'',
              httpMetadata = Some \<lparr>contentType = Some ''image/png'',
                                   cacheControl = None\<rparr>\<rparr>]\<rparr>)"
proof -
  let ?request = "\<lparr>method = ''POST'', pathname = ''/bin/b1/photo'', searchParams = [],
                  header_content_type = Some ''image/png'', json = None,
                  arrayBuffer = ''PNG''\<rparr>"
  let ?env = "\<lparr>BINS_DB = [], BINS_BUCKET = Map.empty\<rparr>"
  let ?blob = "\<lparr>object_body = ''PNG'',
             httpMetadata = Some \<lparr>contentType = Some ''image/png'', cacheControl = None\<rparr>\<rparr>"
  have p: "path_segments ''/bin/b1/photo'' = [''bin'', ''b1'', ''photo'']"
    by (simp add: path_segments_def strip_slashes_def)
  have un: "list_all unreserved ''b1''"
    by (simp add: unreserved_def)
  have k: "photo_object_key ''b1'' 1000 = ''bins/b1/1000.img''"
    by (simp add: photo_object_key_def encode_unreserved [OF un] number_string_def digits.simps)
  have pre: "method ?request = ''POST''
      \<and> path_segments (pathname ?request) = [''bin'', ''b1'', ''photo'']"
    using p by simp
  note post = photo_post_result [of "''b1''" 1000 ?request ?env "readings 1000 1001",
      THEN conjunct2, THEN conjunct2, rule_format, OF pre]
  have t: "readings 1000 1001 0 = 1000" "readings 1000 1001 (Suc 0) = 1001"
    by (simp_all add: readings_def)
  from post un have b: "BINS_BUCKET (snd (fetch ?request (readings 1000 1001) ?env))
       = [''bins/b1/1000.img'' \<mapsto> ?blob]"
    by (auto simp: t k)
  from post have t1: "handleBinPhotoPost_throwing (Some PutBlob) ?request ''b1'' 1000 1001 ?env
       = (Inl PutBlob, ?env)"
    by (auto simp: t k)
  from post have t3: "handleBinPhotoPost_throwing (Some WriteRow) ?request ''b1'' 1000 1001 ?env
       = (Inl WriteRow, \<lparr>BINS_DB = [], BINS_BUCKET = [''bins/b1/1000.img'' \<mapsto> ?blob]\<rparr>)"
    by (auto simp: t k)
  from post un obtain row where
    r: "fst (fetch ?request (readings 1000 1001) ?env)
       = Inr \<lparr>status = 200,
              headers = [(''Content-Type'', ''application/json; charset=utf-8'')],
              body = Json (JObject
                [(''status'', JString ''ok''), (''bin_id'', JString ''b1''),
                 (''photo_key'', JString ''bins/b1/1000.img''),
                 (''photo_url'', JString ''/bin/b1/photo''),
                 (''bin'', row_json (Some row))])\<rparr>"
    and g: "getBinRow (snd (fetch ?request (readings 1000 1001) ?env)) ''b1'' = Some row"
    by (auto simp: t k simp del: row_json.simps)
  have "route ?request = PhotoPost ''b1''"
    using pre by (simp add: route_photo)
  then have "getBinRow (snd (fetch ?request (readings 1000 1001) ?env)) ''b1''
      = Some (merged_row (bucket_put ''bins/b1/1000.img'' ''PNG'' ''image/png'' ?env) ''b1''
                [(''photo_key'', Str ''bins/b1/1000.img'')] 1001)"
    by (simp add: fetch_def photo_post_eq Let_def t k upsert_lookup or_default_def)
  moreover have "merged_row (bucket_put ''bins/b1/1000.img'' ''PNG'' ''image/png'' ?env) ''b1''
                [(''photo_key'', Str ''bins/b1/1000.img'')] 1001
      = \<lparr>bin_id = ''b1'', case_code = None, bin_type = None, notes = None,
               photo_key = Some ''bins/b1/1000.img'', updated_at = Some 1001\<rparr>"
    by (simp add: merged_row_def field_rule_def property_def getBinRow_def)
  ultimately have "getBinRow (snd (fetch ?request (readings 1000 1001) ?env)) ''b1''
      = Some \<lparr>bin_id = ''b1'', case_code = None, bin_type = None, notes = None,
               photo_key = Some ''bins/b1/1000.img'', updated_at = Some 1001\<rparr>"
    by simp
  with g have "row = \<lparr>bin_id = ''b1'', case_code = None, bin_type = None, notes = None,
               photo_key = Some ''bins/b1/1000.img'', updated_at = Some 1001\<rparr>"
    by simp
  with r have f: "fst (fetch ?request (readings 1000 1001) ?env)
       = Inr \<lparr>status = 200,
              headers = [(''Content-Type'', ''application/json; charset=utf-8'')],
              body = Json (JObject
                [(''status'', JString ''ok''), (''bin_id'', JString ''b1''),
                 (''photo_key'', JString ''bins/b1/1000.img''),
                 (''photo_url'', JString ''/bin/b1/photo''),
                 (''bin'', JObject
                    [(''bin_id'', JString ''b1''), (''case_code'', JNull),
                     (''bin_type'', JNull), (''notes'', JNull),
                     (''photo_key'', JString ''bins/b1/1000.img''),
                     (''updated_at'', JNumber 1001)])])\<rparr>"
    by simp
  from p un k f b t1 t3 show ?thesis by blast
qed

text \<open>The claim as the specification words it fails in two places. Two uploads for the
  same bin that read the same millisecond get the same key, and the second replaces
  the first blob: the bucket is left holding the second photo only. And for the bin
  \<^verbatim>\<open>b+1\<close> the URL echoed is \<^verbatim>\<open>/bin/b%2B1/photo\<close>, not \<^verbatim>\<open>/bin/b+1/photo\<close>: a
  \<^verbatim>\<open>GET\<close> of the echoed URL after the upload is answered 404, a \<^verbatim>\<open>GET\<close> of
  \<^verbatim>\<open>/bin/b+1/photo\<close> 200.\<close>

theorem photo_key_unique_counterexample:
  "BINS_BUCKET
     (snd (fetch \<lparr>method = ''POST'', pathname = ''/bin/b1/photo'', searchParams = [],
                  header_content_type = None, json = None, arrayBuffer = ''first''\<rparr>
             (readings 1000 1000) \<lparr>BINS_DB = [], BINS_BUCKET = Map.empty\<rparr>))
     = [''bins/b1/1000.img'' \<mapsto>
          \<lparr>object_body = ''first'',
           httpMetadata = Some \<lparr>contentType = Some ''application/octet-stream'',
                                cacheControl = None\<rparr>\<rparr>]
   \<and> BINS_BUCKET
       (serve \<lparr>BINS_DB = [], BINS_BUCKET = Map.empty\<rparr>
          [(\<lparr>method = ''POST'', pathname = ''/bin/b1/photo'', searchParams = [],
             header_content_type = None, json = None, arrayBuffer = ''first''\<rparr>,
            readings 1000 1000),
           (\<lparr>method = ''POST'', pathname = ''/bin/b1/photo'', searchParams = [],
             header_content_type = None, json = None, arrayBuffer = ''second''\<rparr>,
            readings 1000 1000)])
     = [''bins/b1/1000.img'' \<mapsto>
          \<lparr>object_body = ''second'',
           httpMetadata = Some \<lparr>contentType = Some ''application/octet-stream'',
                                cacheControl = None\<rparr>\<rparr>]
   \<and> fst (fetch \<lparr>method = ''POST'', pathname = ''/bin/b+1/photo'', searchParams = [],
                  header_content_type = None, json = None, arrayBuffer = ''PNG''\<rparr>
            (readings 1000 1000) \<lparr>BINS_DB = [], BINS_BUCKET = Map.empty\<rparr>)
       = Inr \<lparr>status = 200,
              headers = [(''Content-Type'', ''application/json; charset=utf-8'')],
              body = Json (JObject
                [(''status'', JString ''ok''), (''bin_id'', JString ''b+1''),
                 (''photo_key'', JString ''bins/b%2B1/1000.img''),
                 (''photo_url'', JString ''/bin/b%2B1/photo''),
                 (''bin'', JObject
                    [(''bin_id'', JString ''b+1''), (''case_code'', JNull),
                     (''bin_type'', JNull), (''notes'', JNull),
                     (''photo_key'', JString ''bins/b%2B1/1000.img''),
                     (''updated_at'', JNumber 1000)])])\<rparr>
   \<and> ''/bin/b%2B1/photo'' \<noteq> ''/bin/b+1/photo''
   \<and> status_of (fetch \<lparr>method = ''GET'', pathname = ''/bin/b%2B1/photo'', searchParams = [],
                        header_content_type = None, json = None, arrayBuffer = []\<rparr>
                  (readings 2000 2000)
                  (snd (fetch \<lparr>method = ''POST'', pathname = ''/bin/b+1/photo'',
                               searchParams = [], header_content_type = None, json = None,
                               arrayBuffer = ''PNG''\<rparr>
                          (readings 1000 1000) \<lparr>BINS_DB = [], BINS_BUCKET = Map.empty\<rparr>)))
       = Some 404
   \<and> status_of (fetch \<lparr>method = ''GET'', pathname = ''/bin/b+1/photo'', searchParams = [],
                        header_content_type = None, json = None, arrayBuffer = []\<rparr>
                  (readings 2000 2000)
                  (snd (fetch \<lparr>method = ''POST'', pathname = ''/bin/b+1/photo'',
                               searchParams = [], header_content_type = None, json = None,
                               arrayBuffer = ''PNG''\<rparr>
                          (readings 1000 1000) \<lparr>BINS_DB = [], BINS_BUCKET = Map.empty\<rparr>)))
       = Some 200"
proof -
  let ?env = "\<lparr>BINS_DB = [], BINS_BUCKET = Map.empty\<rparr>"
  have k: "photo_object_key ''b1'' 1000 = ''bins/b1/1000.img''"
    by (simp add: photo_object_key_def encodeURIComponent_def encode_char_def unreserved_def
        number_string_def digits.simps)
  have r: "route \<lparr>method = ''POST'', pathname = ''/bin/b1/photo'', searchParams = [],
             header_content_type = None, json = None, arrayBuffer = bytes\<rparr> = PhotoPost ''b1''"
    for bytes
    by (simp add: route_def path_segments_def strip_slashes_def segment_def)
  have b: "BINS_BUCKET (snd (fetch \<lparr>method = ''POST'', pathname = ''/bin/b1/photo'',
             searchParams = [], header_content_type = None, json = None,
             arrayBuffer = bytes\<rparr> (readings 1000 1000) env))
      = (BINS_BUCKET env)(''bins/b1/1000.img'' \<mapsto>
          \<lparr>object_body = bytes,
           httpMetadata = Some \<lparr>contentType = Some ''application/octet-stream'',
                                cacheControl = None\<rparr>\<rparr>)" for bytes env
    by (simp add: fetch_def r photo_post_eq Let_def upsert_bucket k readings_def bucket_put_def
        or_default_def)
  let ?post = "\<lparr>method = ''POST'', pathname = ''/bin/b+1/photo'', searchParams = [],
                  header_content_type = None, json = None, arrayBuffer = ''PNG''\<rparr>"
  let ?blob = "\<lparr>object_body = ''PNG'',
                httpMetadata = Some \<lparr>contentType = Some ''application/octet-stream'',
                                     cacheControl = None\<rparr>\<rparr>"
  let ?row = "\<lparr>bin_id = ''b+1'', case_code = None, bin_type = None, notes = None,
               photo_key = Some ''bins/b%2B1/1000.img'', updated_at = Some 1000\<rparr>"
  have e: "encodeURIComponent ''b+1'' = ''b%2B1''"
    by (simp add: encodeURIComponent_def encode_char_def unreserved_def hexdigit_def)
  have k': "photo_object_key ''b+1'' 1000 = ''bins/b%2B1/1000.img''"
    by (simp add: photo_object_key_def e number_string_def digits.simps)
  have r': "route ?post = PhotoPost ''b+1''"
    by (simp add: route_def path_segments_def strip_slashes_def segment_def)
  have f: "fetch ?post (readings 1000 1000) ?env
      = (Inr \<lparr>status = 200,
              headers = [(''Content-Type'', ''application/json; charset=utf-8'')],
              body = Json (JObject
                [(''status'', JString ''ok''), (''bin_id'', JString ''b+1''),
                 (''photo_key'', JString ''bins/b%2B1/1000.img''),
                 (''photo_url'', JString ''/bin/b%2B1/photo''),
                 (''bin'', JObject
                    [(''bin_id'', JString ''b+1''), (''case_code'', JNull),
                     (''bin_type'', JNull), (''notes'', JNull),
                     (''photo_key'', JString ''bins/b%2B1/1000.img''),
                     (''updated_at'', JNumber 1000)])])\<rparr>,
         \<lparr>BINS_DB = [?row], BINS_BUCKET = [''bins/b%2B1/1000.img'' \<mapsto> ?blob]\<rparr>)"
    by (simp add: fetch_def r' handleBinPhotoPost_def Let_def split_beta readings_def k' e
        photo_url_def jsonResponse_def upsertBinRow_def getBinRow_def sql_insert_def
        resolved_def property_def bucket_put_def or_default_def)
  have g1: "status_of (fetch \<lparr>method = ''GET'', pathname = ''/bin/b%2B1/photo'',
                        searchParams = [], header_content_type = None, json = None,
                        arrayBuffer = []\<rparr>
                  (readings 2000 2000)
                  \<lparr>BINS_DB = [?row], BINS_BUCKET = [''bins/b%2B1/1000.img'' \<mapsto> ?blob]\<rparr>)
       = Some 404"
    by (simp add: fetch_def route_def path_segments_def strip_slashes_def segment_def
        handleBinPhotoGet_def getBinRow_def status_of_def text_response_def)
  have g2: "status_of (fetch \<lparr>method = ''GET'', pathname = ''/bin/b+1/photo'',
                        searchParams = [], header_content_type = None, json = None,
                        arrayBuffer = []\<rparr>
                  (readings 2000 2000)
                  \<lparr>BINS_DB = [?row], BINS_BUCKET = [''bins/b%2B1/1000.img'' \<mapsto> ?blob]\<rparr>)
       = Some 200"
    by (simp add: fetch_def route_def path_segments_def strip_slashes_def segment_def
        handleBinPhotoGet_def getBinRow_def status_of_def)
  show ?thesis by (simp add: b f g1 g2)
qed

text \<open>
  \<^bold>\<open>C8\<close>. Every write through the upsert engine leaves the record with \<^verbatim>\<open>updated_at\<close>
  equal to the time read for the write; the two writing requests go through it: a
  metadata \<^verbatim>\<open>POST\<close> with a JSON body other than \<^verbatim>\<open>null\<close> stamps the record with its
  clock reading, a photo \<^verbatim>\<open>POST\<close> with the reading taken in the upsert. Consequently,
  when the clock does not run backwards over the requests served (\<open>nondecreasing\<close>),
  starting from a table with no stamp later than the clock (the empty table is one),
  no request ever lowers a record's \<^verbatim>\<open>updated_at\<close>: whatever requests were served
  before, every record has after the next request an \<^verbatim>\<open>updated_at\<close> at least as large
  as before it.
\<close>

theorem write_sets_updated_at:
  "(\<exists>r. getBinRow (snd (upsertBinRow env binId data now)) binId = Some r
        \<and> updated_at r = Some now)
   \<and> (method request = ''POST'' \<and> path_segments (pathname request) = [''bin'', binId]
        \<and> json request = Some b \<and> b \<noteq> BodyNull
      \<longrightarrow> (\<exists>r. getBinRow (snd (fetch request clock env)) binId = Some r
                \<and> updated_at r = Some (clock 0)))
   \<and> (method request = ''POST''
        \<and> path_segments (pathname request) = [''bin'', binId, ''photo'']
      \<longrightarrow> (\<exists>r. getBinRow (snd (fetch request clock env)) binId = Some r
                \<and> updated_at r = Some (clock 1)))
   \<and> (stamps_le env0 t \<and> nondecreasing t (earlier @ [(request, clock)])
      \<longrightarrow> (\<forall>k e u. getBinRow (serve env0 earlier) k = Some e \<and> updated_at e = Some u
            \<longrightarrow> (\<exists>e' u'. getBinRow (snd (fetch request clock (serve env0 earlier))) k = Some e'
                    \<and> updated_at e' = Some u' \<and> u \<le> u')))
   \<and> (nondecreasing t (earlier @ [(request, clock)])
      \<longrightarrow> (\<forall>k e u. getBinRow (serve \<lparr>BINS_DB = [], BINS_BUCKET = bucket\<rparr> earlier) k = Some e
                    \<and> updated_at e = Some u
            \<longrightarrow> (\<exists>e' u'. getBinRow (snd (fetch request clock
                               (serve \<lparr>BINS_DB = [], BINS_BUCKET = bucket\<rparr> earlier))) k
                             = Some e'
                    \<and> updated_at e' = Some u' \<and> u \<le> u')))"
proof -
  have upsert: "\<exists>r. getBinRow (snd (upsertBinRow env binId data now)) binId = Some r
        \<and> updated_at r = Some now"
    by (simp add: upsert_lookup merged_row_def)
  have meta: "\<exists>r. getBinRow (snd (fetch request clock env)) binId = Some r
                \<and> updated_at r = Some (clock 0)"
    if a: "method request = ''POST'' \<and> path_segments (pathname request) = [''bin'', binId]
        \<and> json request = Some b \<and> b \<noteq> BodyNull"
  proof -
    from a have "route request = MetaPost binId" by (simp add: route_bin)
    then have f: "fetch request clock env = handleBinMetaPost request binId (clock 0) env"
      by (simp add: fetch_def)
    from a have "json request = Some b" "b \<noteq> BodyNull" by simp_all
    from meta_post_upsert [OF this, of binId "clock 0" env] obtain data' where
      "snd (handleBinMetaPost request binId (clock 0) env)
         = snd (upsertBinRow env binId data' (clock 0))" by auto
    with f show ?thesis by (simp add: upsert_lookup merged_row_def)
  qed
  have photo: "\<exists>r. getBinRow (snd (fetch request clock env)) binId = Some r
                \<and> updated_at r = Some (clock 1)"
    if a: "method request = ''POST''
        \<and> path_segments (pathname request) = [''bin'', binId, ''photo'']"
  proof -
    from a have "route request = PhotoPost binId" by (simp add: route_photo)
    then show ?thesis
      by (simp add: fetch_def photo_post_eq Let_def upsert_lookup merged_row_def)
  qed
  have mono: "\<exists>e' u'. getBinRow (snd (fetch request clock (serve start earlier))) k = Some e'
                    \<and> updated_at e' = Some u' \<and> u \<le> u'"
    if "stamps_le start t" and "nondecreasing t (earlier @ [(request, clock)])"
      and "getBinRow (serve start earlier) k = Some e \<and> updated_at e = Some u"
    for start k e u
  proof -
    from that(2) have n: "nondecreasing t earlier" and c: "last_reading t earlier \<le> clock 0"
        "clock 0 \<le> clock 1"
      by (simp_all add: nondecreasing_snoc)
    from serve_stamps [OF that(1) n]
    have "stamps_le (serve start earlier) (last_reading t earlier)" .
    from fetch_updated_at_mono [OF this c, of k e u request] that(3) show ?thesis by simp
  qed
  have empty: "stamps_le \<lparr>BINS_DB = [], BINS_BUCKET = bucket\<rparr> t"
    by (simp add: stamps_le_def)
  from upsert meta photo mono mono [OF empty] show ?thesis by blast
qed

text \<open>A record last written at 5 is written again when the clock reads 7; a metadata
  \<^verbatim>\<open>POST\<close> at 1000 and a photo \<^verbatim>\<open>POST\<close> whose upsert reads 1001 stamp it so. With the
  clock at 5 before, the metadata \<^verbatim>\<open>POST\<close> read at 1000 and the photo \<^verbatim>\<open>POST\<close> read
  at 1000 and 1001, the record's stamp goes from 5 to 1000 and then on to at least
  1000.\<close>

theorem write_sets_updated_at_witness:
  "(\<exists>r. getBinRow (snd (upsertBinRow
            \<lparr>BINS_DB = [\<lparr>bin_id = ''b1'', case_code = None, bin_type = None,
                         notes = Some ''x'', photo_key = None, updated_at = Some 5\<rparr>],
             BINS_BUCKET = Map.empty\<rparr>
            ''b1'' [(''bin_type'', Str ''plastic'')] 7)) ''b1'' = Some r
       \<and> updated_at r = Some 7)
   \<and> (\<exists>r. getBinRow (snd (fetch
            \<lparr>method = ''POST'', pathname = ''/bin/b1'', searchParams = [],
             header_content_type = None,
             json = Some (BodyObject [(''bin_type'', Str ''plastic'')]), arrayBuffer = []\<rparr>
            (readings 1000 1001)
            \<lparr>BINS_DB = [\<lparr>bin_id = ''b1'', case_code = None, bin_type = None,
                         notes = Some ''x'', photo_key = None, updated_at = Some 5\<rparr>],
             BINS_BUCKET = Map.empty\<rparr>)) ''b1'' = Some r
       \<and> updated_at r = Some 1000)
   \<and> (\<exists>r. getBinRow (snd (fetch
            \<lparr>method = ''POST'', pathname = ''/bin/b1/photo'', searchParams = [],
             header_content_type = None, json = None, arrayBuffer = ''JPEG''\<rparr>
            (readings 1000 1001)
            \<lparr>BINS_DB = [\<lparr>bin_id = ''b1'', case_code = None, bin_type = None,
                         notes = Some ''x'', photo_key = None, updated_at = Some 5\<rparr>],
             BINS_BUCKET = Map.empty\<rparr>)) ''b1'' = Some r
       \<and> updated_at r = Some 1001)
   \<and> stamps_le
        \<lparr>BINS_DB = [\<lparr>bin_id = ''b1'', case_code = None, bin_type = None,
                     notes = Some ''x'', photo_key = None, updated_at = Some 5\<rparr>],
         BINS_BUCKET = Map.empty\<rparr> 5
   \<and> nondecreasing 5
        [(\<lparr>method = ''POST'', pathname = ''/bin/b1'', searchParams = [],
           header_content_type = None,
           json = Some (BodyObject [(''bin_type'', Str ''plastic'')]), arrayBuffer = []\<rparr>,
          readings 1000 1000),
         (\<lparr>method = ''POST'', pathname = ''/bin/b1/photo'', searchParams = [],
           header_content_type = None, json = None, arrayBuffer = ''JPEG''\<rparr>,
          readings 1000 1001)]
   \<and> getBinRow (serve
        \<lparr>BINS_DB = [\<lparr>bin_id = ''b1'', case_code = None, bin_type = None,
                     notes = Some ''x'', photo_key = None, updated_at = Some 5\<rparr>],
         BINS_BUCKET = Map.empty\<rparr>
        [(\<lparr>method = ''POST'', pathname = ''/bin/b1'', searchParams = [],
           header_content_type = None,
           json = Some (BodyObject [(''bin_type'', Str ''plastic'')]), arrayBuffer = []\<rparr>,
          readings 1000 1000)]) ''b1''
       = Some \<lparr>bin_id = ''b1'', case_code = None, bin_type = Some ''plastic'',
               notes = Some ''x'', photo_key = None, updated_at = Some 1000\<rparr>
   \<and> (\<exists>e' u'. getBinRow (snd (fetch
            \<lparr>method = ''POST'', pathname = ''/bin/b1/photo'', searchParams = [],
             header_content_type = None, json = None, arrayBuffer = ''JPEG''\<rparr>
            (readings 1000 1001)
            (serve
              \<lparr>BINS_DB = [\<lparr>bin_id = ''b1'', case_code = None, bin_type = None,
                           notes = Some ''x'', photo_key = None, updated_at = Some 5\<rparr>],
               BINS_BUCKET = Map.empty\<rparr>
              [(\<lparr>method = ''POST'', pathname = ''/bin/b1'', searchParams = [],
                 header_content_type = None,
                 json = Some (BodyObject [(''bin_type'', Str ''plastic'')]),
                 arrayBuffer = []\<rparr>,
                readings 1000 1000)]))) ''b1'' = Some e'
        \<and> updated_at e' = Some u' \<and> 1000 \<le> u')"
proof (intro conjI)
  let ?env = "\<lparr>BINS_DB = [\<lparr>bin_id = ''b1'', case_code = None, bin_type = None,
                         notes = Some ''x'', photo_key = None, updated_at = Some 5\<rparr>],
             BINS_BUCKET = Map.empty\<rparr>"
  let ?meta = "\<lparr>method = ''POST'', pathname = ''/bin/b1'', searchParams = [],
             header_content_type = None,
             json = Some (BodyObject [(''bin_type'', Str ''plastic'')]), arrayBuffer = []\<rparr>"
  let ?photo = "\<lparr>method = ''POST'', pathname = ''/bin/b1/photo'', searchParams = [],
             header_content_type = None, json = None, arrayBuffer = ''JPEG''\<rparr>"
  let ?written = "\<lparr>bin_id = ''b1'', case_code = None, bin_type = Some ''plastic'',
               notes = Some ''x'', photo_key = None, updated_at = Some 1000\<rparr>"
  show "\<exists>r. getBinRow (snd (upsertBinRow ?env ''b1'' [(''bin_type'', Str ''plastic'')] 7)) ''b1''
              = Some r
       \<and> updated_at r = Some 7"
    using write_sets_updated_at
      [of ?env "''b1''" "[(''bin_type'', Str ''plastic'')]" 7, THEN conjunct1]
    by auto
  show "\<exists>r. getBinRow (snd (fetch ?meta (readings 1000 1001) ?env)) ''b1'' = Some r
       \<and> updated_at r = Some 1000"
    using write_sets_updated_at
      [of ?env "''b1''" "[]" 7 ?meta "BodyObject [(''bin_type'', Str ''plastic'')]"
          "readings 1000 1001", THEN conjunct2, THEN conjunct1]
    by (simp add: path_segments_def strip_slashes_def readings_def)
  show "\<exists>r. getBinRow (snd (fetch ?photo (readings 1000 1001) ?env)) ''b1'' = Some r
       \<and> updated_at r = Some 1001"
    using write_sets_updated_at
      [of ?env "''b1''" "[]" 7 ?photo _ "readings 1000 1001",
       THEN conjunct2, THEN conjunct2, THEN conjunct1]
    by (simp add: path_segments_def strip_slashes_def readings_def)
  show st: "stamps_le ?env 5"
    by (simp add: stamps_le_def)
  show nd: "nondecreasing 5 [(?meta, readings 1000 1000), (?photo, readings 1000 1001)]"
    by (simp add: readings_def)
  have "route ?meta = MetaPost ''b1''"
    by (simp add: route_def path_segments_def strip_slashes_def segment_def)
  then show before: "getBinRow (serve ?env [(?meta, readings 1000 1000)]) ''b1'' = Some ?written"
    by (simp add: fetch_def handleBinMetaPost_def Let_def split_beta property_def readings_def
        upsertBinRow_def getBinRow_def sql_update_def resolved_def)
  have pre: "stamps_le ?env 5
      \<and> nondecreasing 5 ([(?meta, readings 1000 1000)] @ [(?photo, readings 1000 1001)])"
    using st nd by simp
  have row: "getBinRow (serve ?env [(?meta, readings 1000 1000)]) ''b1'' = Some ?written
      \<and> updated_at ?written = Some 1000"
    using before by simp
  from write_sets_updated_at
      [of ?env "''b1''" "[]" 7 ?photo _ "readings 1000 1001" ?env 5
          "[(?meta, readings 1000 1000)]",
       THEN conjunct2, THEN conjunct2, THEN conjunct2, THEN conjunct1, rule_format,
       OF pre row]
  show "\<exists>e' u'. getBinRow (snd (fetch ?photo (readings 1000 1001)
                      (serve ?env [(?meta, readings 1000 1000)]))) ''b1'' = Some e'
        \<and> updated_at e' = Some u' \<and> 1000 \<le> u'" .
qed

text \<open>
  \<^bold>\<open>C9\<close>. Whatever requests are served, from whatever state: the table keeps its rows
  in place with the bin ids they had (the ids of the old rows are a prefix of the ids
  of the new ones, so no row is deleted and no \<^verbatim>\<open>bin_id\<close> is rewritten), and a bin that
  had a record still has one, under the same id.
\<close>

theorem records_persist:
  "prefix (map bin_id (BINS_DB env)) (map bin_id (BINS_DB (serve env requests)))
   \<and> (\<forall>k e. getBinRow env k = Some e
         \<longrightarrow> (\<exists>e'. getBinRow (serve env requests) k = Some e' \<and> bin_id e' = bin_id e))"
proof
  from serve_ids [of env requests] obtain new where
    ids: "map bin_id (BINS_DB (serve env requests)) = map bin_id (BINS_DB env) @ new" ..
  then show "prefix (map bin_id (BINS_DB env)) (map bin_id (BINS_DB (serve env requests)))"
    by (simp add: prefix_def)
  show "\<forall>k e. getBinRow env k = Some e
         \<longrightarrow> (\<exists>e'. getBinRow (serve env requests) k = Some e' \<and> bin_id e' = bin_id e)"
  proof (intro allI impI)
    fix k e
    assume e: "getBinRow env k = Some e"
    then have "k \<in> set (map bin_id (BINS_DB env))"
      using getBinRow_None_iff [of env k] by simp
    then have "k \<in> set (map bin_id (BINS_DB (serve env requests)))"
      using ids by simp
    then obtain e' where e': "getBinRow (serve env requests) k = Some e'"
      using getBinRow_None_iff [of "serve env requests" k] by auto
    then have "bin_id e' = k" by (rule getBinRow_bin_id)
    moreover from e have "bin_id e = k" by (rule getBinRow_bin_id)
    ultimately show "\<exists>e'. getBinRow (serve env requests) k = Some e' \<and> bin_id e' = bin_id e"
      using e' by simp
  qed
qed

theorem records_persist_witness:
  "prefix [''b1'']
     (map bin_id (BINS_DB (serve
        \<lparr>BINS_DB = [\<lparr>bin_id = ''b1'', case_code = None, bin_type = None,
                     notes = Some ''x'', photo_key = None, updated_at = Some 5\<rparr>],
         BINS_BUCKET = Map.empty\<rparr>
        [(\<lparr>method = ''POST'', pathname = ''/bin/b1'', searchParams = [],
           header_content_type = None,
           json = Some (BodyObject [(''bin_type'', Str ''plastic'')]), arrayBuffer = []\<rparr>,
          readings 1000 1001),
         (\<lparr>method = ''POST'', pathname = ''/bin/b2/photo'', searchParams = [],
           header_content_type = None, json = None, arrayBuffer = ''JPEG''\<rparr>,
          readings 2000 2001)])))
   \<and> (\<exists>e'. getBinRow (serve
        \<lparr>BINS_DB = [\<lparr>bin_id = ''b1'', case_code = None, bin_type = None,
                     notes = Some ''x'', photo_key = None, updated_at = Some 5\<rparr>],
         BINS_BUCKET = Map.empty\<rparr>
        [(\<lparr>method = ''POST'', pathname = ''/bin/b1'', searchParams = [],
           header_content_type = None,
           json = Some (BodyObject [(''bin_type'', Str ''plastic'')]), arrayBuffer = []\<rparr>,
          readings 1000 1001),
         (\<lparr>method = ''POST'', pathname = ''/bin/b2/photo'', searchParams = [],
           header_content_type = None, json = None, arrayBuffer = ''JPEG''\<rparr>,
          readings 2000 2001)]) ''b1'' = Some e' \<and> bin_id e' = ''b1'')"
proof -
  let ?row = "\<lparr>bin_id = ''b1'', case_code = None, bin_type = None,
                     notes = Some ''x'', photo_key = None, updated_at = Some 5\<rparr>"
  let ?env = "\<lparr>BINS_DB = [?row], BINS_BUCKET = Map.empty\<rparr>"
  let ?requests = "[(\<lparr>method = ''POST'', pathname = ''/bin/b1'', searchParams = [],
           header_content_type = None,
           json = Some (BodyObject [(''bin_type'', Str ''plastic'')]), arrayBuffer = []\<rparr>,
          readings 1000 1001),
         (\<lparr>method = ''POST'', pathname = ''/bin/b2/photo'', searchParams = [],
           header_content_type = None, json = None, arrayBuffer = ''JPEG''\<rparr>,
          readings 2000 2001)]"
  note persist = records_persist [of ?env ?requests]
  from persist have "prefix [''b1''] (map bin_id (BINS_DB (serve ?env ?requests)))"
    by simp
  moreover from persist [THEN conjunct2, rule_format, of "''b1''" ?row]
  have "\<exists>e'. getBinRow (serve ?env ?requests) ''b1'' = Some e' \<and> bin_id e' = ''b1''"
    by (simp add: getBinRow_def)
  ultimately show ?thesis by blast
qed

text \<open>
  \<^bold>\<open>C10\<close>. A \<^verbatim>\<open>POST\<close> to \<^verbatim>\<open>/bin/{id}\<close> leaves the photo key of every record as it was,
  whatever its body holds (a \<^verbatim>\<open>photo_key\<close> field included, and also when the body is
  not JSON or is \<^verbatim>\<open>null\<close>).
\<close>

theorem meta_post_keeps_photo_key:
  assumes "method request = ''POST''"
    and "path_segments (pathname request) = [''bin'', binId]"
  shows "\<forall>k e. getBinRow env k = Some e
           \<longrightarrow> (\<exists>e'. getBinRow (snd (fetch request clock env)) k = Some e'
                  \<and> photo_key e' = photo_key e)"
proof (intro allI impI)
  fix k e
  assume e: "getBinRow env k = Some e"
  have "route request = MetaPost binId" using assms by (simp add: route_bin)
  then have f: "fetch request clock env = handleBinMetaPost request binId (clock 0) env"
    by (simp add: fetch_def)
  from meta_post_env [of request binId "clock 0" env]
  show "\<exists>e'. getBinRow (snd (fetch request clock env)) k = Some e' \<and> photo_key e' = photo_key e"
  proof
    assume "snd (handleBinMetaPost request binId (clock 0) env) = env"
    with f e show ?thesis by simp
  next
    assume "\<exists>data. property data ''photo_key'' = Undefined
        \<and> snd (handleBinMetaPost request binId (clock 0) env)
            = snd (upsertBinRow env binId data (clock 0))"
    then obtain data where d: "property data ''photo_key'' = Undefined"
      and s: "snd (handleBinMetaPost request binId (clock 0) env)
            = snd (upsertBinRow env binId data (clock 0))" by blast
    show ?thesis
    proof (cases "k = binId")
      case True
      with e d f s show ?thesis
        by (simp add: upsert_lookup merged_row_def field_rule_def)
    next
      case False
      with e f s show ?thesis by (simp add: upsert_other)
    qed
  qed
qed

text \<open>The body asks for another photo key; the record keeps the one it had.\<close>

theorem meta_post_keeps_photo_key_witness:
  "path_segments ''/bin/b1'' = [''bin'', ''b1'']
   \<and> (\<exists>e'. getBinRow (snd (fetch
          \<lparr>method = ''POST'', pathname = ''/bin/b1'', searchParams = [],
           header_content_type = None,
           json = Some (BodyObject [(''photo_key'', Str ''bins/b9/9.img''),
                                    (''notes'', Str ''moved'')]),
           arrayBuffer = []\<rparr>
          (readings 1000 1001)
          \<lparr>BINS_DB = [\<lparr>bin_id = ''b1'', case_code = None, bin_type = None,
                       notes = Some ''x'', photo_key = Some ''bins/b1/5.img'',
                       updated_at = Some 5\<rparr>],
           BINS_BUCKET = Map.empty\<rparr>)) ''b1'' = Some e'
        \<and> photo_key e' = Some ''bins/b1/5.img'')"
  using meta_post_keeps_photo_key
    [of "\<lparr>method = ''POST'', pathname = ''/bin/b1'', searchParams = [],
           header_content_type = None,
           json = Some (BodyObject [(''photo_key'', Str ''bins/b9/9.img''),
                                    (''notes'', Str ''moved'')]),
           arrayBuffer = []\<rparr>"
        "''b1''"
        "\<lparr>BINS_DB = [\<lparr>bin_id = ''b1'', case_code = None, bin_type = None,
                       notes = Some ''x'', photo_key = Some ''bins/b1/5.img'',
                       updated_at = Some 5\<rparr>],
           BINS_BUCKET = Map.empty\<rparr>"
        "readings 1000 1001", rule_format,
     of "''b1''" "\<lparr>bin_id = ''b1'', case_code = None, bin_type = None,
                       notes = Some ''x'', photo_key = Some ''bins/b1/5.img'',
                       updated_at = Some 5\<rparr>"]
  by (simp add: path_segments_def strip_slashes_def getBinRow_def)

end
